theory Spec2Isabelle
  imports Main "HOL-Library.Sublist"
begin

section \<open>JavaScript values and text\<close>

text \<open>
  The tools receive their arguments as parsed JSON and hand objects to the remote client
  library. A value is one of JavaScript's JSON-like values; \<open>JUndefined\<close> is the value
  of an absent property. Numbers are integers here. Text is UTF-8: a character outside
  ASCII is the sequence of its bytes.
\<close>

datatype js_value =
    JUndefined
  | JNull
  | JBool bool
  | JNum int
  | JStr string
  | JArr "js_value list"
  | JObj "(string \<times> js_value) list"

type_synonym js_object = "(string \<times> js_value) list"

text \<open>\<open>if (v)\<close>: the truthiness of a value.\<close>

fun truthy :: "js_value \<Rightarrow> bool" where
  "truthy JUndefined = False"
| "truthy JNull = False"
| "truthy (JBool b) = b"
| "truthy (JNum n) = (n \<noteq> 0)"
| "truthy (JStr s) = (s \<noteq> [])"
| "truthy (JArr xs) = True"
| "truthy (JObj kvs) = True"

text \<open>\<open>obj.key\<close>: the value of a property, \<open>undefined\<close> when the object has none.\<close>

definition get_prop :: "js_object \<Rightarrow> string \<Rightarrow> js_value" where
  "get_prop obj k = (case map_of obj k of None \<Rightarrow> JUndefined | Some v \<Rightarrow> v)"

text \<open>A property typed \<open>string | undefined\<close>, \<open>boolean | undefined\<close> as a value.\<close>

definition js_of_string :: "string option \<Rightarrow> js_value" where
  "js_of_string v = (case v of None \<Rightarrow> JUndefined | Some s \<Rightarrow> JStr s)"

definition js_of_bool :: "bool option \<Rightarrow> js_value" where
  "js_of_bool v = (case v of None \<Rightarrow> JUndefined | Some b \<Rightarrow> JBool b)"

definition js_of_value :: "js_value option \<Rightarrow> js_value" where
  "js_of_value v = (case v of None \<Rightarrow> JUndefined | Some x \<Rightarrow> x)"

text \<open>\<open>xs.join(sep)\<close> on an array of strings.\<close>

fun join :: "string \<Rightarrow> string list \<Rightarrow> string" where
  "join sep [] = []"
| "join sep [x] = x"
| "join sep (x # y # ys) = x @ sep @ join sep (y # ys)"

text \<open>\<open>s.includes(sub)\<close>.\<close>

fun str_includes :: "string \<Rightarrow> string \<Rightarrow> bool" where
  "str_includes [] sub = (sub = [])"
| "str_includes (c # cs) sub = (prefix sub (c # cs) \<or> str_includes cs sub)"

text \<open>The decimal rendering of a non-negative integer, as a template literal prints it.\<close>

definition digit_char :: "nat \<Rightarrow> char" where
  "digit_char d = ''0123456789'' ! d"

function decimal_of_nat :: "nat \<Rightarrow> string" where
  "decimal_of_nat n =
     (if 10 \<le> n then decimal_of_nat (n div 10) @ [digit_char (n mod 10)]
      else [digit_char n])"
  by pat_completeness auto
termination
  by (relation "measure (\<lambda>n. n)") simp_all

declare decimal_of_nat.simps [simp del]

definition nl :: string where
  "nl = [CHR 0x0A]"

definition dq :: string where
  "dq = [CHR 0x22]"

definition sq :: string where
  "sq = [CHR 0x27]"

section \<open>Thrown values\<close>

text \<open>
  What a \<open>throw\<close> carries: an instance of \<open>Error\<close> with its name and message, or some
  other value, kept as the text \<open>String(value)\<close> gives for it.
\<close>

datatype thrown =
    ErrorObj (error_name: string) (error_message: string)
  | NonError string

text \<open>\<open>new Error(msg)\<close>.\<close>

definition new_Error :: "string \<Rightarrow> thrown" where
  "new_Error msg = ErrorObj ''Error'' msg"

text \<open>\<open>String(error)\<close> and \<open>`${error}`\<close>: for an Error, \<open>Error.prototype.toString\<close>.\<close>

fun String_of :: "thrown \<Rightarrow> string" where
  "String_of (ErrorObj n m) =
     (if n = [] then m else if m = [] then n else n @ '': '' @ m)"
| "String_of (NonError s) = s"

text \<open>\<open>error instanceof Error ? error.message : String(error)\<close>.\<close>

fun message_of :: "thrown \<Rightarrow> string" where
  "message_of (ErrorObj n m) = m"
| "message_of (NonError s) = s"

section \<open>Asynchronous calls: state passing with exceptions\<close>

text \<open>
  An \<open>await\<close>ed call runs against the remote platform (the state \<open>'s\<close>), and either
  returns a value or throws. Calls run one after the other; a throw skips the rest of
  the sequence up to the enclosing \<open>catch\<close>.
\<close>

type_synonym ('a, 's) io = "'s \<Rightarrow> (thrown + 'a) \<times> 's"

definition io_return :: "'a \<Rightarrow> ('a, 's) io" where
  "io_return a s = (Inr a, s)"

definition io_throw :: "thrown \<Rightarrow> ('a, 's) io" where
  "io_throw e s = (Inl e, s)"

definition io_bind :: "('a, 's) io \<Rightarrow> ('a \<Rightarrow> ('b, 's) io) \<Rightarrow> ('b, 's) io" where
  "io_bind m f s = (case m s of (Inl e, s') \<Rightarrow> (Inl e, s') | (Inr a, s') \<Rightarrow> f a s')"

definition io_catch :: "('a, 's) io \<Rightarrow> (thrown \<Rightarrow> ('a, 's) io) \<Rightarrow> ('a, 's) io" where
  "io_catch m h s = (case m s of (Inl e, s') \<Rightarrow> h e s' | (Inr a, s') \<Rightarrow> (Inr a, s'))"

section \<open>utils/connection.ts\<close>

text \<open>
  \<open>process.env\<close> is a map from variable names to strings. \<open>!v\<close> holds of a variable
  that is unset or set to the empty string.
\<close>

type_synonym env = "string \<rightharpoonup> string"

definition is_set :: "string option \<Rightarrow> bool" where
  "is_set v = (case v of None \<Rightarrow> False | Some s \<Rightarrow> s \<noteq> [])"

text \<open>\<open>v || d\<close> on a string that may be undefined.\<close>

definition or_else :: "string option \<Rightarrow> string \<Rightarrow> string" where
  "or_else v d = (case v of None \<Rightarrow> d | Some s \<Rightarrow> if s = [] then d else s)"

text \<open>
  \<open>createUserPasswordConnection\<close>. The client library's
  \<open>new Connection({loginUrl}).login(username, password)\<close> is the parameter \<open>login\<close>:
  it takes the login URL, the user name and the password, and returns the logged-in
  handle or throws.
\<close>

definition createUserPasswordConnection ::
  "env \<Rightarrow> (string \<Rightarrow> string \<Rightarrow> string \<Rightarrow> ('c, 's) io) \<Rightarrow> ('c, 's) io" where
  "createUserPasswordConnection process_env login =
     (let username = process_env ''SALESFORCE_USERNAME'';
          password = process_env ''SALESFORCE_PASSWORD'';
          token = process_env ''SALESFORCE_TOKEN'';
          instanceUrl = or_else (process_env ''SALESFORCE_INSTANCE_URL'')
                          ''https://login.salesforce.com''
      in if \<not> is_set username \<or> \<not> is_set password \<or> \<not> is_set token
         then io_throw (new_Error
           ''Missing required Salesforce credentials: SALESFORCE_USERNAME, SALESFORCE_PASSWORD, SALESFORCE_TOKEN'')
         else login instanceUrl (the username) (the password @ the token))"

text \<open>A login stub for concrete runs: it succeeds and returns what it was called with.\<close>

definition login_echo :: "string \<Rightarrow> string \<Rightarrow> string \<Rightarrow> (string \<times> string \<times> string, unit) io" where
  "login_echo url u p = io_return (url, u, p)"

definition env_no_url :: env where
  "env_no_url = map_of
     [(''SALESFORCE_USERNAME'', ''u''), (''SALESFORCE_PASSWORD'', ''p''),
      (''SALESFORCE_TOKEN'', ''t'')]"

definition env_no_token :: env where
  "env_no_token = map_of
     [(''SALESFORCE_USERNAME'', ''u''), (''SALESFORCE_PASSWORD'', ''p''),
      (''SALESFORCE_INSTANCE_URL'', ''https://test.salesforce.com'')]"

section \<open>More of JavaScript: objects, rendering, emoji\<close>

text \<open>\<open>obj.key = v\<close>: an assignment keeps the key's place when the object has it already.\<close>

definition set_prop :: "js_object \<Rightarrow> string \<Rightarrow> js_value \<Rightarrow> js_object" where
  "set_prop obj k v =
     (if k \<in> set (map fst obj)
      then map (\<lambda>kv. if fst kv = k then (k, v) else kv) obj
      else obj @ [(k, v)])"

text \<open>\<open>{...a, ...b}\<close>: the properties of \<open>b\<close> are assigned onto \<open>a\<close> in order.\<close>

definition spread :: "js_object \<Rightarrow> js_object \<Rightarrow> js_object" where
  "spread a b = foldl (\<lambda>obj kv. set_prop obj (fst kv) (snd kv)) a b"

text \<open>\<open>`${v}`\<close> on a string that may be undefined.\<close>

definition template_of :: "string option \<Rightarrow> string" where
  "template_of v = (case v of None \<Rightarrow> ''undefined'' | Some s \<Rightarrow> s)"

definition decimal_of_int :: "int \<Rightarrow> string" where
  "decimal_of_int i =
     (if 0 \<le> i then decimal_of_nat (nat i) else CHR ''-'' # decimal_of_nat (nat (- i)))"

text \<open>\<open>`${v}`\<close> on any value: \<open>String(v)\<close>.\<close>

fun String_js :: "js_value \<Rightarrow> string" where
  "String_js JUndefined = ''undefined''"
| "String_js JNull = ''null''"
| "String_js (JBool b) = (if b then ''true'' else ''false'')"
| "String_js (JNum n) = decimal_of_int n"
| "String_js (JStr s) = s"
| "String_js (JArr xs) =
     join '','' (map (\<lambda>x. if x = JUndefined \<or> x = JNull then [] else String_js x) xs)"
| "String_js (JObj kvs) = ''[object Object]''"

definition emoji_check :: string where
  "emoji_check = [CHR 0xE2, CHR 0x9C, CHR 0x85]"

definition emoji_warning :: string where
  "emoji_warning = [CHR 0xE2, CHR 0x9A, CHR 0xA0, CHR 0xEF, CHR 0xB8, CHR 0x8F]"

definition emoji_rocket :: string where
  "emoji_rocket = [CHR 0xF0, CHR 0x9F, CHR 0x9A, CHR 0x80]"

definition emoji_clipboard :: string where
  "emoji_clipboard = [CHR 0xF0, CHR 0x9F, CHR 0x93, CHR 0x8B]"

definition emoji_bulb :: string where
  "emoji_bulb = [CHR 0xF0, CHR 0x9F, CHR 0x92, CHR 0xA1]"

definition emoji_phone :: string where
  "emoji_phone = [CHR 0xF0, CHR 0x9F, CHR 0x93, CHR 0xB1]"

definition emoji_green :: string where
  "emoji_green = [CHR 0xF0, CHR 0x9F, CHR 0x9F, CHR 0xA2]"

definition emoji_red :: string where
  "emoji_red = [CHR 0xF0, CHR 0x9F, CHR 0x94, CHR 0xB4]"

definition emoji_link :: string where
  "emoji_link = [CHR 0xF0, CHR 0x9F, CHR 0x94, CHR 0x97]"

definition emoji_bin :: string where
  "emoji_bin = [CHR 0xF0, CHR 0x9F, CHR 0x97, CHR 0x91, CHR 0xEF, CHR 0xB8, CHR 0x8F]"

text \<open>
  Reading a property of \<open>undefined\<close> throws a \<open>TypeError\<close> (the message is the one of
  the V8 engine).
\<close>

definition undefined_read :: "string \<Rightarrow> thrown" where
  "undefined_read k =
     ErrorObj ''TypeError''
       (''Cannot read properties of undefined (reading '' @ sq @ k @ sq @ '')'')"

section \<open>The remote client library\<close>

text \<open>
  The handle \<open>conn\<close> of the client library, as far as the tools use it. Each call is a
  round trip to the remote platform: it returns or throws, and may change the
  platform's state. The library is not part of the repository, so its calls are the
  fields of a record, and every property below holds whatever they do.
  \<^item> \<open>describe n\<close> is \<open>conn.describe(n)\<close> (the result is not used);
  \<^item> \<open>sobject_create n r\<close> is \<open>conn.sobject(n).create(r)\<close>, returning the save result;
  \<^item> \<open>sobject_update n r\<close> is \<open>conn.sobject(n).update(r)\<close>;
  \<^item> \<open>sobject_delete n i\<close> is \<open>conn.sobject(n).delete(i)\<close>;
  \<^item> \<open>query q\<close> is \<open>conn.query(q)\<close>;
  \<^item> \<open>metadata_create t m\<close> and \<open>metadata_update t m\<close> are \<open>conn.metadata.create(t, m)\<close>
    and \<open>conn.metadata.update(t, m)\<close>.
\<close>

record SaveResult =
  id' :: string

record QueryResult =
  records :: "js_object list"

record 's Connection =
  describe :: "string \<Rightarrow> (unit, 's) io"
  sobject_create :: "string \<Rightarrow> js_object \<Rightarrow> (SaveResult, 's) io"
  sobject_update :: "string \<Rightarrow> js_object \<Rightarrow> (unit, 's) io"
  sobject_delete :: "string \<Rightarrow> js_value \<Rightarrow> (unit, 's) io"
  query :: "string \<Rightarrow> (QueryResult, 's) io"
  metadata_create :: "string \<Rightarrow> js_object \<Rightarrow> (unit, 's) io"
  metadata_update :: "string \<Rightarrow> js_object \<Rightarrow> (unit, 's) io"

section \<open>tools/manageIntegrations.ts: the data\<close>

text \<open>
  \<open>IntegrationConfig\<close>. The string-literal unions (\<open>type\<close>, \<open>authType\<close>, the trigger
  events) are strings. The properties that \<open>updateIntegration\<close> tests for presence are
  optional here, since the update operation is given a partial configuration:
  \<open>None\<close> is an absent property.
\<close>

record IntegrationConfig =
  name :: string
  type :: string
  endpoint :: "string option"
  authType :: string
  authConfig :: "js_value option"
  objectName :: string
  triggerEvents :: "string list"
  messageTemplate :: "string option"
  condition :: "string option"
  active :: "bool option"

text \<open>
  \<open>ManageIntegrationsArgs\<close>. The handler passes \<open>args.integrationName!\<close> and
  \<open>args.config!\<close> on unchecked, so the operations take them as optional values.
\<close>

record ManageIntegrationsArgs =
  operation :: string
  integrationName :: "string option"
  config :: "IntegrationConfig option"

text \<open>The response \<open>{content: [{type, text}]}\<close>: a list of items, each a type and a text.\<close>

record ToolResponse =
  content :: "(string \<times> string) list"

definition text_response :: "string \<Rightarrow> ToolResponse" where
  "text_response t = \<lparr>content = [(''text'', t)]\<rparr>"

section \<open>tools/manageIntegrations.ts: helpers that deploy components\<close>

record CustomFieldSpec =
  field_name :: string
  field_type :: string
  field_length :: "int option"
  field_label :: string

text \<open>The object literal of one entry of the array \<open>fields\<close> (here \<open>custom_fields\<close>), in the order of its properties.\<close>

definition field_object :: "CustomFieldSpec \<Rightarrow> js_object" where
  "field_object f =
     [(''name'', JStr (field_name f)), (''type'', JStr (field_type f))]
     @ (case field_length f of None \<Rightarrow> [] | Some n \<Rightarrow> [(''length'', JNum n)])
     @ [(''label'', JStr (field_label f))]"

definition custom_fields :: "CustomFieldSpec list" where
  "custom_fields =
     [\<lparr>field_name = ''Type__c'', field_type = ''Text'', field_length = Some 50, field_label = ''Type''\<rparr>,
      \<lparr>field_name = ''Endpoint__c'', field_type = ''LongTextArea'', field_length = Some 1000, field_label = ''Endpoint''\<rparr>,
      \<lparr>field_name = ''Auth_Type__c'', field_type = ''Text'', field_length = Some 50, field_label = ''Auth Type''\<rparr>,
      \<lparr>field_name = ''Auth_Config__c'', field_type = ''LongTextArea'', field_length = Some 2000, field_label = ''Auth Config''\<rparr>,
      \<lparr>field_name = ''Object_Name__c'', field_type = ''Text'', field_length = Some 100, field_label = ''Object Name''\<rparr>,
      \<lparr>field_name = ''Trigger_Events__c'', field_type = ''Text'', field_length = Some 100, field_label = ''Trigger Events''\<rparr>,
      \<lparr>field_name = ''Message_Template__c'', field_type = ''LongTextArea'', field_length = Some 1000, field_label = ''Message Template''\<rparr>,
      \<lparr>field_name = ''Condition__c'', field_type = ''LongTextArea'', field_length = Some 1000, field_label = ''Condition''\<rparr>,
      \<lparr>field_name = ''Active__c'', field_type = ''Checkbox'', field_length = None, field_label = ''Active''\<rparr>]"

text \<open>The loop \<open>for (const field of fields) await conn.metadata.create(...)\<close>.\<close>

fun create_fields :: "'s Connection \<Rightarrow> CustomFieldSpec list \<Rightarrow> (unit, 's) io" where
  "create_fields conn [] = io_return ()"
| "create_fields conn (field # rest) =
     io_bind (metadata_create conn ''CustomField''
                (spread [(''fullName'', JStr (''Integration_Config__c.'' @ field_name field))]
                        (field_object field)))
       (\<lambda>_. create_fields conn rest)"

definition createIntegrationConfigObject :: "'s Connection \<Rightarrow> (unit, 's) io" where
  "createIntegrationConfigObject conn =
     (let metadata =
        [(''fullName'', JStr ''Integration_Config__c''),
         (''label'', JStr ''Integration Config''),
         (''pluralLabel'', JStr ''Integration Configs''),
         (''nameField'', JObj [(''type'', JStr ''Text''), (''label'', JStr ''Integration Name'')]),
         (''deploymentStatus'', JStr ''Deployed''),
         (''sharingModel'', JStr ''ReadWrite'')]
      in io_bind (metadata_create conn ''CustomObject'' metadata)
           (\<lambda>_. create_fields conn custom_fields))"

text \<open>\<open>generateTriggerCode\<close>: the events are mapped, and the empty strings filtered out.\<close>

definition trigger_clause :: "string \<Rightarrow> string" where
  "trigger_clause event =
     (if event = ''insert'' then ''after insert''
      else if event = ''update'' then ''after update''
      else if event = ''delete'' then ''after delete''
      else [])"

definition generateTriggerCode :: "IntegrationConfig \<Rightarrow> string" where
  "generateTriggerCode cfg =
     (let events = filter (\<lambda>e. e \<noteq> []) (map trigger_clause (triggerEvents cfg))
      in ''trigger '' @ objectName cfg @ ''IntegrationTrigger on '' @ objectName cfg
         @ '' ('' @ join '', '' events @ '') {'' @ nl
         @ ''    IntegrationCalloutService.handleIntegrationCallout('' @ sq @ name cfg @ sq
         @ '', Trigger.new, Trigger.old, Trigger.operationType);'' @ nl
         @ ''}'')"

text \<open>\<open>generateUtilityClass\<close>: the fixed source text of the callout service.\<close>

definition generateUtilityClass :: string where
  "generateUtilityClass =
      ''public class IntegrationCalloutService {'' @ nl @
      ''    '' @ nl @
      ''    @future(callout=true)'' @ nl @
      ''    public static void handleIntegrationCallout(String integrationName, List<SObject> newRecords, List<SObject> oldRecords, System.TriggerOperation operationType) {'' @ nl @
      ''        try {'' @ nl @
      ''            // Get integration config'' @ nl @
      ''            Integration_Config__c config = ['' @ nl @
      ''                SELECT Type__c, Endpoint__c, Auth_Type__c, Auth_Config__c, Message_Template__c, Condition__c, Active__c'' @ nl @
      ''                FROM Integration_Config__c '' @ nl @
      ''                WHERE Name = :integrationName AND Active__c = true'' @ nl @
      ''                LIMIT 1'' @ nl @
      ''            ];'' @ nl @
      ''            '' @ nl @
      ''            if (config == null) return;'' @ nl @
      ''            '' @ nl @
      ''            // Process records'' @ nl @
      ''            for (SObject record : newRecords) {'' @ nl @
      ''                // Check condition if specified'' @ nl @
      ''                if (String.isNotBlank(config.Condition__c)) {'' @ nl @
      ''                    // For now, we'' @ sq @ ''ll skip condition checking in this basic implementation'' @ nl @
      ''                    // In a full implementation, you'' @ sq @ ''d evaluate the SOQL condition here'' @ nl @
      ''                }'' @ nl @
      ''                '' @ nl @
      ''                // Prepare message'' @ nl @
      ''                String message = prepareMessage(config.Message_Template__c, record);'' @ nl @
      ''                '' @ nl @
      ''                // Make callout based on integration type'' @ nl @
      ''                makeCallout(config, message, record);'' @ nl @
      ''            }'' @ nl @
      ''        } catch (Exception e) {'' @ nl @
      ''            System.debug('' @ sq @ ''Integration callout error: '' @ sq @ '' + e.getMessage());'' @ nl @
      ''        }'' @ nl @
      ''    }'' @ nl @
      ''    '' @ nl @
      ''    private static String prepareMessage(String template, SObject record) {'' @ nl @
      ''        String message = template;'' @ nl @
      ''        '' @ nl @
      ''        // Replace merge fields in template'' @ nl @
      ''        Map<String, Object> fieldMap = record.getPopulatedFieldsAsMap();'' @ nl @
      ''        for (String fieldName : fieldMap.keySet()) {'' @ nl @
      ''            Object fieldValue = fieldMap.get(fieldName);'' @ nl @
      ''            if (fieldValue != null) {'' @ nl @
      ''                message = message.replace('' @ sq @ ''{'' @ sq @ '' + fieldName + '' @ sq @ ''}'' @ sq @ '', String.valueOf(fieldValue));'' @ nl @
      ''            }'' @ nl @
      ''        }'' @ nl @
      ''        '' @ nl @
      ''        return message;'' @ nl @
      ''    }'' @ nl @
      ''    '' @ nl @
      ''    private static void makeCallout(Integration_Config__c config, String message, SObject record) {'' @ nl @
      ''        Http http = new Http();'' @ nl @
      ''        HttpRequest req = new HttpRequest();'' @ nl @
      ''        req.setEndpoint(config.Endpoint__c);'' @ nl @
      ''        req.setMethod('' @ sq @ ''POST'' @ sq @ '');'' @ nl @
      ''        req.setHeader('' @ sq @ ''Content-Type'' @ sq @ '', '' @ sq @ ''application/json'' @ sq @ '');'' @ nl @
      ''        '' @ nl @
      ''        // Add authentication'' @ nl @
      ''        Map<String, Object> authConfig = (Map<String, Object>) JSON.deserializeUntyped(config.Auth_Config__c);'' @ nl @
      ''        '' @ nl @
      ''        if (config.Auth_Type__c == '' @ sq @ ''bearer'' @ sq @ '' && authConfig.containsKey('' @ sq @ ''token'' @ sq @ '')) {'' @ nl @
      ''            req.setHeader('' @ sq @ ''Authorization'' @ sq @ '', '' @ sq @ ''Bearer '' @ sq @ '' + (String) authConfig.get('' @ sq @ ''token'' @ sq @ ''));'' @ nl @
      ''        } else if (config.Auth_Type__c == '' @ sq @ ''api_key'' @ sq @ '' && authConfig.containsKey('' @ sq @ ''apiKey'' @ sq @ '')) {'' @ nl @
      ''            req.setHeader('' @ sq @ ''X-API-Key'' @ sq @ '', (String) authConfig.get('' @ sq @ ''apiKey'' @ sq @ ''));'' @ nl @
      ''        }'' @ nl @
      ''        '' @ nl @
      ''        // Prepare payload based on integration type'' @ nl @
      ''        Map<String, Object> payload = new Map<String, Object>();'' @ nl @
      ''        '' @ nl @
      ''        if (config.Type__c == '' @ sq @ ''whatsapp'' @ sq @ '') {'' @ nl @
      ''            payload.put('' @ sq @ ''phone'' @ sq @ '', getPhoneFromRecord(record));'' @ nl @
      ''            payload.put('' @ sq @ ''message'' @ sq @ '', message);'' @ nl @
      ''        } else if (config.Type__c == '' @ sq @ ''slack'' @ sq @ '') {'' @ nl @
      ''            payload.put('' @ sq @ ''text'' @ sq @ '', message);'' @ nl @
      ''            payload.put('' @ sq @ ''channel'' @ sq @ '', getSlackChannelFromConfig(authConfig));'' @ nl @
      ''        } else {'' @ nl @
      ''            payload.put('' @ sq @ ''message'' @ sq @ '', message);'' @ nl @
      ''            payload.put('' @ sq @ ''data'' @ sq @ '', record);'' @ nl @
      ''        }'' @ nl @
      ''        '' @ nl @
      ''        req.setBody(JSON.serialize(payload));'' @ nl @
      ''        '' @ nl @
      ''        try {'' @ nl @
      ''            HttpResponse res = http.send(req);'' @ nl @
      ''            System.debug('' @ sq @ ''Integration response: '' @ sq @ '' + res.getStatusCode() + '' @ sq @ '' '' @ sq @ '' + res.getBody());'' @ nl @
      ''        } catch (Exception e) {'' @ nl @
      ''            System.debug('' @ sq @ ''Callout error: '' @ sq @ '' + e.getMessage());'' @ nl @
      ''        }'' @ nl @
      ''    }'' @ nl @
      ''    '' @ nl @
      ''    private static String getPhoneFromRecord(SObject record) {'' @ nl @
      ''        // Try common phone fields'' @ nl @
      ''        if (record.get('' @ sq @ ''Phone'' @ sq @ '') != null) return (String) record.get('' @ sq @ ''Phone'' @ sq @ '');'' @ nl @
      ''        if (record.get('' @ sq @ ''MobilePhone'' @ sq @ '') != null) return (String) record.get('' @ sq @ ''MobilePhone'' @ sq @ '');'' @ nl @
      ''        return null;'' @ nl @
      ''    }'' @ nl @
      ''    '' @ nl @
      ''    private static String getSlackChannelFromConfig(Map<String, Object> authConfig) {'' @ nl @
      ''        return authConfig.containsKey('' @ sq @ ''channel'' @ sq @ '') ? (String) authConfig.get('' @ sq @ ''channel'' @ sq @ '') : '' @ sq @ ''#general'' @ sq @ '';'' @ nl @
      ''    }'' @ nl @
      ''}''"

definition createTrigger ::
  "'s Connection \<Rightarrow> string \<Rightarrow> string \<Rightarrow> string \<Rightarrow> (unit, 's) io" where
  "createTrigger conn triggerName objName triggerBody =
     metadata_create conn ''ApexTrigger''
       [(''fullName'', JStr triggerName), (''tableEnumOrId'', JStr objName),
        (''status'', JStr ''Active''), (''body'', JStr triggerBody)]"

definition updateTrigger :: "'s Connection \<Rightarrow> string \<Rightarrow> string \<Rightarrow> (unit, 's) io" where
  "updateTrigger conn triggerName triggerBody =
     metadata_update conn ''ApexTrigger''
       [(''fullName'', JStr triggerName), (''body'', JStr triggerBody)]"

definition createApexClass :: "'s Connection \<Rightarrow> string \<Rightarrow> string \<Rightarrow> (unit, 's) io" where
  "createApexClass conn className classBody =
     metadata_create conn ''ApexClass''
       [(''fullName'', JStr className), (''status'', JStr ''Active''), (''body'', JStr classBody)]"

section \<open>tools/manageIntegrations.ts: the operations\<close>

text \<open>
  \<open>JSON.stringify\<close> is the parameter \<open>JSON_stringify\<close> of the operations that call it:
  they store its output and never read it.
\<close>

text \<open>The lines that \<open>createIntegration\<close> pushes onto \<open>steps\<close>.\<close>

definition schema_line :: string where
  "schema_line = emoji_check @ '' Created Integration_Config__c custom object''"

definition record_line :: "string \<Rightarrow> string" where
  "record_line rid = emoji_check @ '' Created integration config record: '' @ rid"

definition trigger_created_line :: "string \<Rightarrow> string" where
  "trigger_created_line triggerName = emoji_check @ '' Created trigger: '' @ triggerName"

definition trigger_updated_line :: "string \<Rightarrow> string" where
  "trigger_updated_line triggerName = emoji_check @ '' Updated existing trigger: '' @ triggerName"

definition trigger_warning_line :: "thrown \<Rightarrow> string" where
  "trigger_warning_line updateError =
     emoji_warning @ '' Warning: Could not create/update trigger: '' @ String_of updateError"

definition class_created_line :: "string \<Rightarrow> string" where
  "class_created_line utilityClassName = emoji_check @ '' Created utility class: '' @ utilityClassName"

definition class_exists_line :: "string \<Rightarrow> string" where
  "class_exists_line utilityClassName =
     emoji_check @ '' Utility class already exists: '' @ utilityClassName"

definition class_warning_line :: "thrown \<Rightarrow> string" where
  "class_warning_line error =
     emoji_warning @ '' Warning: Could not create utility class: '' @ String_of error"

text \<open>Step 1: probe the custom object; when the probe throws, create it.\<close>

definition create_step1 :: "'s Connection \<Rightarrow> string list \<Rightarrow> (string list, 's) io" where
  "create_step1 conn steps =
     io_catch
       (io_bind (describe conn ''Integration_Config__c'') (\<lambda>_. io_return steps))
       (\<lambda>error. io_bind (createIntegrationConfigObject conn)
                   (\<lambda>_. io_return (steps @ [schema_line])))"

text \<open>Step 2: store the configuration record.\<close>

definition integrationRecord :: "(js_value \<Rightarrow> string) \<Rightarrow> IntegrationConfig \<Rightarrow> js_object" where
  "integrationRecord JSON_stringify cfg =
     [(''Name'', JStr (name cfg)),
      (''Type__c'', JStr (type cfg)),
      (''Endpoint__c'', js_of_string (endpoint cfg)),
      (''Auth_Type__c'', JStr (authType cfg)),
      (''Auth_Config__c'',
         JStr (JSON_stringify
                 (if truthy (js_of_value (authConfig cfg)) then js_of_value (authConfig cfg)
                  else JObj []))),
      (''Object_Name__c'', JStr (objectName cfg)),
      (''Trigger_Events__c'', JStr (join '','' (triggerEvents cfg))),
      (''Message_Template__c'', js_of_string (messageTemplate cfg)),
      (''Condition__c'', JStr (or_else (condition cfg) [])),
      (''Active__c'', js_of_bool (active cfg))]"

definition create_step2 ::
  "(js_value \<Rightarrow> string) \<Rightarrow> 's Connection \<Rightarrow> IntegrationConfig \<Rightarrow> string list
     \<Rightarrow> (string list, 's) io" where
  "create_step2 JSON_stringify conn cfg steps =
     io_bind (sobject_create conn ''Integration_Config__c'' (integrationRecord JSON_stringify cfg))
       (\<lambda>result. io_return (steps @ [record_line (id' result)]))"

text \<open>Step 3: create the trigger; when that throws, update it; when that throws, warn.\<close>

definition create_step3 ::
  "'s Connection \<Rightarrow> IntegrationConfig \<Rightarrow> string list \<Rightarrow> (string list, 's) io" where
  "create_step3 conn cfg steps =
     (let triggerCode = generateTriggerCode cfg;
          triggerName = objectName cfg @ ''IntegrationTrigger''
      in io_catch
           (io_bind (createTrigger conn triggerName (objectName cfg) triggerCode)
              (\<lambda>_. io_return (steps @ [trigger_created_line triggerName])))
           (\<lambda>error.
              io_catch
                (io_bind (updateTrigger conn triggerName triggerCode)
                   (\<lambda>_. io_return (steps @ [trigger_updated_line triggerName])))
                (\<lambda>updateError. io_return (steps @ [trigger_warning_line updateError]))))"

text \<open>
  Step 4: create the utility class; a thrown Error whose message includes
  \<open>DUPLICATE_VALUE\<close> means that the class is there already, anything else is a warning.
\<close>

definition is_duplicate :: "thrown \<Rightarrow> bool" where
  "is_duplicate error =
     (case error of ErrorObj n m \<Rightarrow> str_includes m ''DUPLICATE_VALUE'' | NonError v \<Rightarrow> False)"

definition create_step4 :: "'s Connection \<Rightarrow> string list \<Rightarrow> (string list, 's) io" where
  "create_step4 conn steps =
     (let utilityClassName = ''IntegrationCalloutService'';
          utilityClassCode = generateUtilityClass
      in io_catch
           (io_bind (createApexClass conn utilityClassName utilityClassCode)
              (\<lambda>_. io_return (steps @ [class_created_line utilityClassName])))
           (\<lambda>error.
              if is_duplicate error
              then io_return (steps @ [class_exists_line utilityClassName])
              else io_return (steps @ [class_warning_line error])))"

text \<open>The text of the response of a create that ran to its end.\<close>

definition create_summary :: "IntegrationConfig \<Rightarrow> string list \<Rightarrow> string" where
  "create_summary cfg steps =
     emoji_rocket @ '' Integration '' @ dq @ name cfg @ dq @ '' created successfully!'' @ nl @ nl
     @ join nl steps @ nl @ nl
     @ emoji_clipboard @ '' Summary:'' @ nl
     @ ''- Type: '' @ type cfg @ nl
     @ ''- Object: '' @ objectName cfg @ nl
     @ ''- Events: '' @ join '', '' (triggerEvents cfg) @ nl
     @ ''- Status: '' @ (if active cfg = Some True then ''Active'' else ''Inactive'') @ nl @ nl
     @ emoji_bulb @ '' Your integration will trigger on '' @ join ''/'' (triggerEvents cfg)
     @ '' events for '' @ objectName cfg @ '' records.''"

text \<open>
  \<open>createIntegration\<close>. Step 1 runs before the first property of \<open>config\<close> is read
  (\<open>config.name\<close>, for the record of step 2).
\<close>

definition createIntegration ::
  "(js_value \<Rightarrow> string) \<Rightarrow> 's Connection \<Rightarrow> IntegrationConfig option \<Rightarrow> (ToolResponse, 's) io" where
  "createIntegration JSON_stringify conn config_arg =
     io_bind (create_step1 conn []) (\<lambda>steps1.
       case config_arg of
         None \<Rightarrow> io_throw (undefined_read ''name'')
       | Some cfg \<Rightarrow>
           io_bind (create_step2 JSON_stringify conn cfg steps1) (\<lambda>steps2.
           io_bind (create_step3 conn cfg steps2) (\<lambda>steps3.
           io_bind (create_step4 conn steps3) (\<lambda>steps4.
             io_return (text_response (create_summary cfg steps4))))))"

definition list_soql :: string where
  "list_soql = nl
     @ ''      SELECT Name, Type__c, Object_Name__c, Trigger_Events__c, Active__c, CreatedDate'' @ nl
     @ ''      FROM Integration_Config__c '' @ nl
     @ ''      ORDER BY CreatedDate DESC'' @ nl
     @ ''    ''"

definition list_entry :: "js_object \<Rightarrow> string" where
  "list_entry record =
     emoji_phone @ '' '' @ String_js (get_prop record ''Name'') @ nl
     @ ''   Type: '' @ String_js (get_prop record ''Type__c'')
     @ '' | Object: '' @ String_js (get_prop record ''Object_Name__c'') @ nl
     @ ''   Events: '' @ String_js (get_prop record ''Trigger_Events__c'')
     @ '' | Status: ''
     @ (if truthy (get_prop record ''Active__c'') then emoji_green @ '' Active''
        else emoji_red @ '' Inactive'')"

definition list_empty_text :: string where
  "list_empty_text =
     ''No integrations found. Use '' @ sq @ ''create'' @ sq
     @ '' operation to set up your first integration!''"

definition list_failed_text :: string where
  "list_failed_text =
     ''No integrations found. The Integration_Config__c object may not exist yet. Create your first integration to get started!''"

definition listIntegrations :: "'s Connection \<Rightarrow> (ToolResponse, 's) io" where
  "listIntegrations conn =
     io_catch
       (io_bind (query conn list_soql) (\<lambda>results.
          if length (records results) = 0
          then io_return (text_response list_empty_text)
          else (let integrationsList = join (nl @ nl) (map list_entry (records results))
                in io_return (text_response
                     (emoji_link @ '' Your Integrations (''
                      @ decimal_of_nat (length (records results)) @ '' total):'' @ nl @ nl
                      @ integrationsList)))))
       (\<lambda>error. io_return (text_response list_failed_text))"

text \<open>
  \<open>updateIntegration\<close>: \<open>updateData\<close> gets a property for each tested property of the
  configuration; the record sent is \<open>{Name: integrationName, ...updateData}\<close>.
\<close>

definition updateData_of :: "(js_value \<Rightarrow> string) \<Rightarrow> IntegrationConfig \<Rightarrow> js_object" where
  "updateData_of JSON_stringify cfg =
     (let updateData = [];
          updateData = (if is_set (endpoint cfg)
                        then set_prop updateData ''Endpoint__c'' (js_of_string (endpoint cfg))
                        else updateData);
          updateData = (if truthy (js_of_value (authConfig cfg))
                        then set_prop updateData ''Auth_Config__c''
                               (JStr (JSON_stringify (js_of_value (authConfig cfg))))
                        else updateData);
          updateData = (if is_set (messageTemplate cfg)
                        then set_prop updateData ''Message_Template__c''
                               (js_of_string (messageTemplate cfg))
                        else updateData);
          updateData = (if condition cfg \<noteq> None
                        then set_prop updateData ''Condition__c'' (js_of_string (condition cfg))
                        else updateData);
          updateData = (if active cfg \<noteq> None
                        then set_prop updateData ''Active__c'' (js_of_bool (active cfg))
                        else updateData)
      in updateData)"

definition update_record ::
  "(js_value \<Rightarrow> string) \<Rightarrow> string option \<Rightarrow> IntegrationConfig \<Rightarrow> js_object" where
  "update_record JSON_stringify integrationName_arg cfg =
     spread [(''Name'', js_of_string integrationName_arg)] (updateData_of JSON_stringify cfg)"

definition updated_text :: "string option \<Rightarrow> string" where
  "updated_text integrationName_arg =
     emoji_check @ '' Integration '' @ dq @ template_of integrationName_arg @ dq
     @ '' updated successfully!''"

definition updateIntegration ::
  "(js_value \<Rightarrow> string) \<Rightarrow> 's Connection \<Rightarrow> string option \<Rightarrow> IntegrationConfig option
     \<Rightarrow> (ToolResponse, 's) io" where
  "updateIntegration JSON_stringify conn integrationName_arg config_arg =
     (case config_arg of
        None \<Rightarrow> io_throw (undefined_read ''endpoint'')
      | Some cfg \<Rightarrow>
          io_bind (sobject_update conn ''Integration_Config__c''
                     (update_record JSON_stringify integrationName_arg cfg))
            (\<lambda>result. io_return (text_response (updated_text integrationName_arg))))"

definition delete_soql :: "string option \<Rightarrow> string" where
  "delete_soql integrationName_arg =
     ''SELECT Id FROM Integration_Config__c WHERE Name = '' @ sq
     @ template_of integrationName_arg @ sq"

definition not_found :: "string option \<Rightarrow> thrown" where
  "not_found integrationName_arg =
     new_Error (''Integration '' @ dq @ template_of integrationName_arg @ dq @ '' not found'')"

definition deleted_text :: "string option \<Rightarrow> string" where
  "deleted_text integrationName_arg =
     emoji_bin @ '' Integration '' @ dq @ template_of integrationName_arg @ dq
     @ '' deleted successfully!''"

definition deleteIntegration :: "'s Connection \<Rightarrow> string option \<Rightarrow> (ToolResponse, 's) io" where
  "deleteIntegration conn integrationName_arg =
     io_bind (query conn (delete_soql integrationName_arg)) (\<lambda>results.
       if length (records results) = 0
       then io_throw (not_found integrationName_arg)
       else io_bind (sobject_delete conn ''Integration_Config__c''
                       (get_prop (records results ! 0) ''Id''))
              (\<lambda>_. io_return (text_response (deleted_text integrationName_arg))))"

definition activated_text :: "string option \<Rightarrow> bool \<Rightarrow> string" where
  "activated_text integrationName_arg active_arg =
     (let status = (if active_arg then ''activated'' else ''deactivated'');
          emoji = (if active_arg then emoji_green else emoji_red)
      in emoji @ '' Integration '' @ dq @ template_of integrationName_arg @ dq @ '' ''
         @ status @ '' successfully!'')"

definition activateIntegration ::
  "'s Connection \<Rightarrow> string option \<Rightarrow> bool \<Rightarrow> (ToolResponse, 's) io" where
  "activateIntegration conn integrationName_arg active_arg =
     io_bind (sobject_update conn ''Integration_Config__c''
                [(''Name'', js_of_string integrationName_arg), (''Active__c'', JBool active_arg)])
       (\<lambda>result. io_return (text_response (activated_text integrationName_arg active_arg)))"

text \<open>
  \<open>handleManageIntegrations\<close>: the switch on the operation inside \<open>try\<close>; whatever is
  thrown becomes a text response.
\<close>

definition manage_error_text :: "thrown \<Rightarrow> string" where
  "manage_error_text error = ''Error managing integration: '' @ message_of error"

definition handleManageIntegrations ::
  "(js_value \<Rightarrow> string) \<Rightarrow> 's Connection \<Rightarrow> ManageIntegrationsArgs \<Rightarrow> (ToolResponse, 's) io" where
  "handleManageIntegrations JSON_stringify conn args =
     io_catch
       (if operation args = ''create'' then createIntegration JSON_stringify conn (config args)
        else if operation args = ''list'' then listIntegrations conn
        else if operation args = ''update''
          then updateIntegration JSON_stringify conn (integrationName args) (config args)
        else if operation args = ''delete'' then deleteIntegration conn (integrationName args)
        else if operation args = ''activate''
          then activateIntegration conn (integrationName args) True
        else if operation args = ''deactivate''
          then activateIntegration conn (integrationName args) False
        else io_throw (new_Error (''Unknown operation: '' @ operation args)))
       (\<lambda>error. io_return (text_response (manage_error_text error)))"

section \<open>tools/quickSetupIntegration.ts\<close>

record QuickSetupConfig =
  whatsappApiToken :: "string option"
  phoneNumber :: "string option"
  slackWebhookUrl :: "string option"
  slackChannel :: "string option"
  emailEndpoint :: "string option"
  emailApiKey :: "string option"
  webhookUrl :: "string option"
  webhookHeaders :: "js_object option"
  qs_messageTemplate :: "string option"
  qs_condition :: "string option"

record QuickSetupArgs =
  qs_type :: string
  qs_objectName :: string
  qs_config :: QuickSetupConfig

text \<open>
  \<open>createQuickSetupConfig\<close>. \<open>Date.now()\<close> is the parameter \<open>Date_now\<close>. Each case
  spreads \<open>baseConfig\<close> (name, objectName, triggerEvents, messageTemplate, condition,
  active) and adds its own properties; the opportunity case overrides \<open>triggerEvents\<close>.
\<close>

definition createQuickSetupConfig :: "nat \<Rightarrow> QuickSetupArgs \<Rightarrow> thrown + IntegrationConfig" where
  "createQuickSetupConfig Date_now args =
     (let base_name = qs_type args @ ''_'' @ qs_objectName args @ ''_'' @ decimal_of_nat Date_now;
          base_objectName = qs_objectName args;
          base_triggerEvents = [''insert''];
          base_messageTemplate = qs_messageTemplate (qs_config args);
          base_condition = qs_condition (qs_config args);
          base_active = Some True
      in if qs_type args = ''whatsapp_lead'' then
           Inr \<lparr>name = base_name, type = ''whatsapp'',
                endpoint = Some ''https://graph.facebook.com/v17.0/YOUR_PHONE_NUMBER_ID/messages'',
                authType = ''bearer'',
                authConfig = Some (JObj
                  [(''token'', js_of_string (whatsappApiToken (qs_config args))),
                   (''phoneNumber'', js_of_string (phoneNumber (qs_config args)))]),
                objectName = base_objectName, triggerEvents = base_triggerEvents,
                messageTemplate = base_messageTemplate, condition = base_condition,
                active = base_active\<rparr>
         else if qs_type args = ''slack_opportunity'' then
           Inr \<lparr>name = base_name, type = ''slack'',
                endpoint = Some (or_else (slackWebhookUrl (qs_config args)) []),
                authType = ''none'',
                authConfig = Some (JObj
                  [(''channel'', JStr (or_else (slackChannel (qs_config args)) ''#sales''))]),
                objectName = base_objectName, triggerEvents = [''insert'', ''update''],
                messageTemplate = base_messageTemplate, condition = base_condition,
                active = base_active\<rparr>
         else if qs_type args = ''email_case'' then
           Inr \<lparr>name = base_name, type = ''email'',
                endpoint = Some (or_else (emailEndpoint (qs_config args))
                                   ''https://api.sendgrid.com/v3/mail/send''),
                authType = ''api_key'',
                authConfig = Some (JObj
                  [(''apiKey'', js_of_string (emailApiKey (qs_config args)))]),
                objectName = base_objectName, triggerEvents = base_triggerEvents,
                messageTemplate = base_messageTemplate, condition = base_condition,
                active = base_active\<rparr>
         else if qs_type args = ''webhook_custom'' then
           Inr \<lparr>name = base_name, type = ''webhook'',
                endpoint = Some (or_else (webhookUrl (qs_config args)) []),
                authType = ''none'',
                authConfig = Some (JObj
                  (case webhookHeaders (qs_config args) of None \<Rightarrow> [] | Some h \<Rightarrow> h)),
                objectName = base_objectName, triggerEvents = base_triggerEvents,
                messageTemplate = base_messageTemplate, condition = base_condition,
                active = base_active\<rparr>
         else Inl (new_Error (''Unknown quick setup type: '' @ qs_type args)))"

definition quick_error_text :: "thrown \<Rightarrow> string" where
  "quick_error_text error = ''Error setting up quick integration: '' @ message_of error"

text \<open>
  \<open>handleQuickSetupIntegration\<close>: the configuration goes to the create operation of
  \<open>handleManageIntegrations\<close>.
\<close>

definition handleQuickSetupIntegration ::
  "(js_value \<Rightarrow> string) \<Rightarrow> nat \<Rightarrow> 's Connection \<Rightarrow> QuickSetupArgs \<Rightarrow> (ToolResponse, 's) io" where
  "handleQuickSetupIntegration JSON_stringify Date_now conn args =
     io_catch
       (case createQuickSetupConfig Date_now args of
          Inl error \<Rightarrow> io_throw error
        | Inr integrationConfig \<Rightarrow>
            handleManageIntegrations JSON_stringify conn
              \<lparr>operation = ''create'', integrationName = None,
               config = Some integrationConfig\<rparr>)
       (\<lambda>error. io_return (text_response (quick_error_text error)))"

section \<open>Observing the calls to the remote platform\<close>

text \<open>
  The requests that the client library can be asked for. \<open>traced conn\<close> behaves as
  \<open>conn\<close> does and records, in order, every request made, whether it then returns or
  throws: the log tells which remote calls an operation issued.
\<close>

datatype request =
    Describe string
  | SObjectCreate string js_object
  | SObjectUpdate string js_object
  | SObjectDelete string js_value
  | Query string
  | MetadataCreate string js_object
  | MetadataUpdate string js_object

definition logged :: "request \<Rightarrow> ('a, 's) io \<Rightarrow> ('a, request list \<times> 's) io" where
  "logged r m ls = (case m (snd ls) of (res, s') \<Rightarrow> (res, (fst ls @ [r], s')))"

definition traced :: "'s Connection \<Rightarrow> (request list \<times> 's) Connection" where
  "traced conn =
     \<lparr>describe = (\<lambda>n. logged (Describe n) (describe conn n)),
      sobject_create = (\<lambda>n r. logged (SObjectCreate n r) (sobject_create conn n r)),
      sobject_update = (\<lambda>n r. logged (SObjectUpdate n r) (sobject_update conn n r)),
      sobject_delete = (\<lambda>n i. logged (SObjectDelete n i) (sobject_delete conn n i)),
      query = (\<lambda>q. logged (Query q) (query conn q)),
      metadata_create = (\<lambda>t m. logged (MetadataCreate t m) (metadata_create conn t m)),
      metadata_update = (\<lambda>t m. logged (MetadataUpdate t m) (metadata_update conn t m))\<rparr>"

text \<open>
  \<open>failing bad conn\<close> behaves as \<open>conn\<close> does, except that the requests that \<open>bad\<close>
  holds of throw and leave the platform as it is: a remote call that fails.
\<close>

definition remote_failure :: thrown where
  "remote_failure = ErrorObj ''Error'' ''remote call failed''"

definition failing :: "(request \<Rightarrow> bool) \<Rightarrow> 's Connection \<Rightarrow> 's Connection" where
  "failing bad conn =
     \<lparr>describe = (\<lambda>n. if bad (Describe n) then io_throw remote_failure else describe conn n),
      sobject_create = (\<lambda>n r. if bad (SObjectCreate n r) then io_throw remote_failure
                              else sobject_create conn n r),
      sobject_update = (\<lambda>n r. if bad (SObjectUpdate n r) then io_throw remote_failure
                              else sobject_update conn n r),
      sobject_delete = (\<lambda>n i. if bad (SObjectDelete n i) then io_throw remote_failure
                              else sobject_delete conn n i),
      query = (\<lambda>q. if bad (Query q) then io_throw remote_failure else query conn q),
      metadata_create = (\<lambda>t m. if bad (MetadataCreate t m) then io_throw remote_failure
                               else metadata_create conn t m),
      metadata_update = (\<lambda>t m. if bad (MetadataUpdate t m) then io_throw remote_failure
                               else metadata_update conn t m)\<rparr>"

fun is_trigger_deployment :: "request \<Rightarrow> bool" where
  "is_trigger_deployment (MetadataCreate t m) = (t = ''ApexTrigger'')"
| "is_trigger_deployment (MetadataUpdate t m) = (t = ''ApexTrigger'')"
| "is_trigger_deployment r = False"

fun is_class_deployment :: "request \<Rightarrow> bool" where
  "is_class_deployment (MetadataCreate t m) = (t = ''ApexClass'')"
| "is_class_deployment r = False"

fun is_record_creation :: "request \<Rightarrow> bool" where
  "is_record_creation (SObjectCreate n r) = True"
| "is_record_creation r = False"

section \<open>A reference model of the remote platform\<close>

text \<open>
  Modelled from the spec: the remote platform behind the client library (the library
  and the platform are not part of the repository). It holds what the spec's data
  model names: whether the backing record type is provisioned, the configuration
  records (one object per integration, with its \<open>Id\<close>, \<open>Name\<close> and fields, oldest
  first) and the deployed triggers and classes. The concrete runs below use it.
\<close>

record crm =
  provisioned :: bool
  store :: "js_object list"
  created :: nat
  deployed :: "(string \<times> js_value) list"

definition crm_error :: "string \<Rightarrow> thrown" where
  "crm_error code = ErrorObj code (code @ '': the request was rejected'')"

definition crm_describe :: "string \<Rightarrow> (unit, crm) io" where
  "crm_describe n s =
     (if n = ''Integration_Config__c'' \<and> provisioned s then (Inr (), s)
      else (Inl (crm_error ''NOT_FOUND''), s))"

text \<open>
  Modelled from the spec: metadata deployment. A record type is provisioned once; a
  trigger or a class is created under a name not yet taken, and updated under a name
  that is.
\<close>

definition crm_metadata_create :: "string \<Rightarrow> js_object \<Rightarrow> (unit, crm) io" where
  "crm_metadata_create t m s =
     (if t = ''CustomObject'' then
        (if provisioned s then (Inl (crm_error ''DUPLICATE_VALUE''), s)
         else (Inr (), s\<lparr>provisioned := True\<rparr>))
      else if t = ''CustomField'' then
        (if provisioned s then (Inr (), s) else (Inl (crm_error ''NOT_FOUND''), s))
      else if (t, get_prop m ''fullName'') \<in> set (deployed s)
        then (Inl (crm_error ''DUPLICATE_VALUE''), s)
      else (Inr (), s\<lparr>deployed := deployed s @ [(t, get_prop m ''fullName'')]\<rparr>))"

definition crm_metadata_update :: "string \<Rightarrow> js_object \<Rightarrow> (unit, crm) io" where
  "crm_metadata_update t m s =
     (if (t, get_prop m ''fullName'') \<in> set (deployed s) then (Inr (), s)
      else (Inl (crm_error ''NOT_FOUND''), s))"

text \<open>Modelled from the spec: inserting one configuration record, under a fresh Id.\<close>

definition crm_sobject_create :: "string \<Rightarrow> js_object \<Rightarrow> (SaveResult, crm) io" where
  "crm_sobject_create n r s =
     (if n = ''Integration_Config__c'' \<and> provisioned s then
        (let rid = ''a0X'' @ decimal_of_nat (created s)
         in (Inr \<lparr>id' = rid\<rparr>,
             s\<lparr>store := store s @ [(''Id'', JStr rid) # r], created := Suc (created s)\<rparr>))
      else (Inl (crm_error ''NOT_FOUND''), s))"

text \<open>
  Modelled from the spec: "a targeted field update keyed by name". The fields sent are
  written onto every record that bears the name sent; the call succeeds also when no
  record bears it.
\<close>

definition crm_sobject_update :: "string \<Rightarrow> js_object \<Rightarrow> (unit, crm) io" where
  "crm_sobject_update n r s =
     (if n = ''Integration_Config__c'' \<and> provisioned s then
        (Inr (), s\<lparr>store := map (\<lambda>rec. if get_prop rec ''Name'' = get_prop r ''Name''
                                      then spread rec r else rec) (store s)\<rparr>)
      else (Inl (crm_error ''NOT_FOUND''), s))"

text \<open>Modelled from the spec: deleting the record with the given Id.\<close>

definition crm_sobject_delete :: "string \<Rightarrow> js_value \<Rightarrow> (unit, crm) io" where
  "crm_sobject_delete n i s =
     (if n = ''Integration_Config__c'' \<and> provisioned s
         \<and> i \<in> set (map (\<lambda>rec. get_prop rec ''Id'') (store s)) then
        (Inr (), s\<lparr>store := filter (\<lambda>rec. get_prop rec ''Id'' \<noteq> i) (store s)\<rparr>)
      else (Inl (crm_error ''NOT_FOUND''), s))"

text \<open>
  Modelled from the spec: the two queries of the tools. The listing returns all
  records, newest first; the lookup returns the records that bear the name between the
  quotes. A query on a record type that is not provisioned fails, as any other query.
\<close>

definition lookup_prefix :: string where
  "lookup_prefix = ''SELECT Id FROM Integration_Config__c WHERE Name = '' @ sq"

definition crm_query :: "string \<Rightarrow> (QueryResult, crm) io" where
  "crm_query q s =
     (if \<not> provisioned s then (Inl (crm_error ''INVALID_TYPE''), s)
      else if q = list_soql then (Inr \<lparr>records = rev (store s)\<rparr>, s)
      else if prefix lookup_prefix q \<and> length lookup_prefix < length q \<and> last q = CHR 0x27 then
        (Inr \<lparr>records =
                filter (\<lambda>rec. get_prop rec ''Name''
                                = JStr (butlast (drop (length lookup_prefix) q)))
                  (store s)\<rparr>, s)
      else (Inl (crm_error ''MALFORMED_QUERY''), s))"

definition crm_conn :: "crm Connection" where
  "crm_conn =
     \<lparr>describe = crm_describe,
      sobject_create = crm_sobject_create,
      sobject_update = crm_sobject_update,
      sobject_delete = crm_sobject_delete,
      query = crm_query,
      metadata_create = crm_metadata_create,
      metadata_update = crm_metadata_update\<rparr>"

text \<open>A platform not yet provisioned, and one that holds a single configuration.\<close>

definition crm_fresh :: crm where
  "crm_fresh = \<lparr>provisioned = False, store = [], created = 0, deployed = []\<rparr>"

definition lead_record :: js_object where
  "lead_record =
     [(''Id'', JStr ''a0X0''), (''Name'', JStr ''lead_alert''), (''Type__c'', JStr ''webhook''),
      (''Endpoint__c'', JStr ''https://example.org/hook''), (''Auth_Type__c'', JStr ''none''),
      (''Auth_Config__c'', JStr ''{}''), (''Object_Name__c'', JStr ''Lead''),
      (''Trigger_Events__c'', JStr ''insert''), (''Message_Template__c'', JStr ''Hi {Name}''),
      (''Condition__c'', JStr []), (''Active__c'', JBool True)]"

definition crm_one :: crm where
  "crm_one = \<lparr>provisioned = True, store = [lead_record], created = 1, deployed = []\<rparr>"

definition crm_empty :: crm where
  "crm_empty = \<lparr>provisioned = True, store = [], created = 0, deployed = []\<rparr>"

text \<open>A \<open>JSON.stringify\<close> for the concrete runs: only the empty object occurs in them.\<close>

definition stringify_stub :: "js_value \<Rightarrow> string" where
  "stringify_stub v = (if v = JObj [] then ''{}'' else ''[json]'')"

text \<open>A partial configuration that sets the active flag only.\<close>

definition only_active :: IntegrationConfig where
  "only_active =
     \<lparr>name = [], type = [], endpoint = None, authType = [], authConfig = None,
      objectName = [], triggerEvents = [], messageTemplate = None, condition = None,
      active = Some False\<rparr>"

text \<open>
  A partial configuration with empty values: an empty endpoint and message template, a
  null authConfig, an empty condition and the active flag off.
\<close>

definition empty_values :: IntegrationConfig where
  "empty_values =
     \<lparr>name = [], type = [], endpoint = Some [], authType = [], authConfig = Some JNull,
      objectName = [], triggerEvents = [], messageTemplate = Some [], condition = Some [],
      active = Some False\<rparr>"

definition lead_config :: IntegrationConfig where
  "lead_config =
     \<lparr>name = ''lead_alert'', type = ''webhook'', endpoint = Some ''https://example.org/hook'',
      authType = ''none'', authConfig = None, objectName = ''Lead'',
      triggerEvents = [''insert''], messageTemplate = Some ''Hi {Name}'', condition = None,
      active = Some True\<rparr>"

text \<open>Quick-setup arguments for the concrete runs: a Slack preset and a WhatsApp preset.\<close>

definition no_options :: QuickSetupConfig where
  "no_options =
     \<lparr>whatsappApiToken = None, phoneNumber = None, slackWebhookUrl = None, slackChannel = None,
      emailEndpoint = None, emailApiKey = None, webhookUrl = None, webhookHeaders = None,
      qs_messageTemplate = Some ''Hi {Name}'', qs_condition = None\<rparr>"

definition slack_args :: QuickSetupArgs where
  "slack_args =
     \<lparr>qs_type = ''slack_opportunity'', qs_objectName = ''Opportunity'', qs_config = no_options\<rparr>"

definition whatsapp_args :: QuickSetupArgs where
  "whatsapp_args =
     \<lparr>qs_type = ''whatsapp_lead'', qs_objectName = ''Lead'',
      qs_config = no_options\<lparr>whatsappApiToken := Some ''T'', phoneNumber := Some ''+1''\<rparr>\<rparr>"

section \<open>Reading the summary of a create\<close>


definition is_trigger_line :: "string \<Rightarrow> string \<Rightarrow> bool" where
  "is_trigger_line triggerName l =
     (l = trigger_created_line triggerName \<or> l = trigger_updated_line triggerName
      \<or> prefix (emoji_warning @ '' Warning: Could not create/update trigger: '') l)"

definition is_class_line :: "string \<Rightarrow> bool" where
  "is_class_line l =
     (l = class_created_line ''IntegrationCalloutService''
      \<or> l = class_exists_line ''IntegrationCalloutService''
      \<or> prefix (emoji_warning @ '' Warning: Could not create utility class: '') l)"

definition is_code_deployment :: "request \<Rightarrow> bool" where
  "is_code_deployment r = (is_trigger_deployment r \<or> is_class_deployment r)"

text \<open>The arguments of a tool call for an operation on a named integration.\<close>

definition manage_args ::
  "string \<Rightarrow> string option \<Rightarrow> IntegrationConfig option \<Rightarrow> ManageIntegrationsArgs" where
  "manage_args op nm cfg = \<lparr>operation = op, integrationName = nm, config = cfg\<rparr>"

section \<open>Facts about the model\<close>

lemmas io_defs = io_bind_def io_catch_def io_return_def io_throw_def

lemmas crm_defs = crm_conn_def crm_describe_def crm_metadata_create_def crm_metadata_update_def
  crm_sobject_create_def crm_sobject_update_def crm_sobject_delete_def crm_query_def crm_error_def

lemmas create_defs = createIntegration_def create_step1_def create_step2_def create_step3_def
  create_step4_def createIntegrationConfigObject_def createTrigger_def updateTrigger_def
  createApexClass_def custom_fields_def field_object_def spread_def set_prop_def get_prop_def

lemma io_cases:
  obtains (throws) e s' where "m s = (Inl e, s')" | (returns) a s' where "m s = (Inr a, s')"
  by (cases "m s") (metis sumE)



lemma create_step3_total:
  "\<exists>tl s3. create_step3 conn cfg steps2 s = (Inr (steps2 @ [tl]), s3)
     \<and> is_trigger_line (objectName cfg @ ''IntegrationTrigger'') tl"
proof (cases rule: io_cases [of "createTrigger conn (objectName cfg @ ''IntegrationTrigger'') (objectName cfg) (generateTriggerCode cfg)" s])
  case (returns a s')
  then show ?thesis
    by (simp add: create_step3_def Let_def io_catch_def io_bind_def io_return_def is_trigger_line_def)
next
  case (throws e s')
  then show ?thesis
    by (cases rule: io_cases [of "updateTrigger conn (objectName cfg @ ''IntegrationTrigger'') (generateTriggerCode cfg)" s'])
       (simp_all add: create_step3_def Let_def io_catch_def io_bind_def io_return_def
          is_trigger_line_def trigger_warning_line_def)
qed

lemma create_step4_total:
  "\<exists>cl s4. create_step4 conn steps3 s = (Inr (steps3 @ [cl]), s4) \<and> is_class_line cl"
  by (cases rule: io_cases [of "createApexClass conn ''IntegrationCalloutService'' generateUtilityClass" s])
     (simp_all add: create_step4_def Let_def io_catch_def io_bind_def io_return_def
        is_class_line_def class_warning_line_def)

lemma create_step3_warning:
  assumes "createTrigger conn (objectName cfg @ ''IntegrationTrigger'') (objectName cfg)
             (generateTriggerCode cfg) s = (Inl e1, sa)"
      and "updateTrigger conn (objectName cfg @ ''IntegrationTrigger'') (generateTriggerCode cfg) sa
             = (Inl e2, sb)"
  shows "create_step3 conn cfg steps2 s = (Inr (steps2 @ [trigger_warning_line e2]), sb)"
  using assms by (simp add: create_step3_def Let_def io_defs)

lemma create_step4_warning:
  assumes "createApexClass conn ''IntegrationCalloutService'' generateUtilityClass s = (Inl e, sc)"
      and "\<not> is_duplicate e"
  shows "create_step4 conn steps3 s = (Inr (steps3 @ [class_warning_line e]), sc)"
  using assms by (simp add: create_step4_def Let_def io_defs)

lemma handle_never_throws:
  "\<exists>resp s'. handleManageIntegrations JSON_stringify conn args s = (Inr resp, s')"
  unfolding handleManageIntegrations_def io_catch_def io_return_def
  by (auto split: prod.splits sum.splits)

lemma listIntegrations_never_throws:
  "\<exists>resp s'. listIntegrations conn s = (Inr resp, s')"
  unfolding listIntegrations_def io_catch_def io_return_def io_bind_def
  by (auto split: prod.splits sum.splits simp: Let_def)

lemma traced_sobject_update:
  "sobject_update (traced conn) n r ls =
     (fst (sobject_update conn n r (snd ls)),
      (fst ls @ [SObjectUpdate n r], snd (sobject_update conn n r (snd ls))))"
  by (simp add: traced_def logged_def split: prod.splits)


lemma map_of_replace:
  "map_of (map (\<lambda>kv. if fst kv = k then (k, v) else kv) obj) k' =
     (if k' = k \<and> k \<in> fst ` set obj then Some v else map_of obj k')"
  by (induction obj) (fastforce simp: image_iff)+

lemma map_of_set_prop: "map_of (set_prop obj k v) = (map_of obj)(k \<mapsto> v)"
proof (cases "k \<in> set (map fst obj)")
  case True
  then show ?thesis by (auto simp: set_prop_def fun_eq_iff map_of_replace)
next
  case False
  then have "map_of obj k = None" by (simp add: map_of_eq_None_iff)
  with False show ?thesis
    by (auto simp: set_prop_def fun_eq_iff map_add_def split: option.splits)
qed

lemma get_prop_set_prop:
  "get_prop (set_prop obj k v) k' = (if k' = k then v else get_prop obj k')"
  by (simp add: get_prop_def map_of_set_prop)

lemma get_prop_spread_other:
  "k \<notin> fst ` set b \<Longrightarrow> get_prop (spread a b) k = get_prop a k"
  unfolding spread_def
  by (induction b arbitrary: a) (auto simp: get_prop_set_prop)

lemma crm_update_frame:
  "k \<notin> fst ` set r \<Longrightarrow>
     map (\<lambda>rec. get_prop rec k) (store (snd (crm_sobject_update n r c)))
       = map (\<lambda>rec. get_prop rec k) (store c)"
  by (simp add: crm_sobject_update_def get_prop_spread_other)

lemma update_run:
  "handleManageIntegrations JSON_stringify conn (manage_args ''update'' nm (Some cfg)) s =
     (case sobject_update conn ''Integration_Config__c''
             (update_record JSON_stringify nm cfg) s of
        (Inl e, s') \<Rightarrow> (Inr (text_response (manage_error_text e)), s')
      | (Inr u, s') \<Rightarrow> (Inr (text_response (updated_text nm)), s'))"
  by (simp add: handleManageIntegrations_def manage_args_def updateIntegration_def io_defs
      split: prod.splits sum.splits)

lemma only_active_payload:
  assumes "endpoint cfg = None" "authConfig cfg = None" "messageTemplate cfg = None"
    "condition cfg = None" "active cfg = Some b"
  shows "update_record JSON_stringify nm cfg
           = [(''Name'', js_of_string nm), (''Active__c'', JBool b)]"
  using assms
  by (simp add: update_record_def updateData_of_def spread_def set_prop_def is_set_def
      js_of_value_def js_of_bool_def)

lemma activate_run:
  "handleManageIntegrations JSON_stringify conn (manage_args ''activate'' nm cfg) s =
     (case sobject_update conn ''Integration_Config__c''
             [(''Name'', js_of_string nm), (''Active__c'', JBool True)] s of
        (Inl e, s') \<Rightarrow> (Inr (text_response (manage_error_text e)), s')
      | (Inr u, s') \<Rightarrow> (Inr (text_response (activated_text nm True)), s'))"
  by (simp add: handleManageIntegrations_def manage_args_def activateIntegration_def io_defs
      split: prod.splits sum.splits)

lemma deactivate_run:
  "handleManageIntegrations JSON_stringify conn (manage_args ''deactivate'' nm cfg) s =
     (case sobject_update conn ''Integration_Config__c''
             [(''Name'', js_of_string nm), (''Active__c'', JBool False)] s of
        (Inl e, s') \<Rightarrow> (Inr (text_response (manage_error_text e)), s')
      | (Inr u, s') \<Rightarrow> (Inr (text_response (activated_text nm False)), s'))"
  by (simp add: handleManageIntegrations_def manage_args_def activateIntegration_def io_defs
      split: prod.splits sum.splits)

lemma delete_soql_shape: "delete_soql (Some n) = lookup_prefix @ n @ sq"
  by (simp add: delete_soql_def lookup_prefix_def template_of_def)

lemma lookup_not_listing: "lookup_prefix @ n @ sq \<noteq> list_soql"
  by (simp add: lookup_prefix_def list_soql_def nl_def)

lemma lookup_parse:
  "prefix lookup_prefix (lookup_prefix @ n @ sq)"
  "length lookup_prefix < length (lookup_prefix @ n @ sq)"
  "last (lookup_prefix @ n @ sq) = CHR 0x27"
  "butlast (drop (length lookup_prefix) (lookup_prefix @ n @ sq)) = n"
  by (simp_all add: sq_def)

lemma crm_lookup:
  "provisioned c \<Longrightarrow>
     crm_query (delete_soql (Some n)) c =
       (Inr \<lparr>records = filter (\<lambda>rec. get_prop rec ''Name'' = JStr n) (store c)\<rparr>, c)"
  unfolding delete_soql_shape crm_query_def
  by (simp only: lookup_not_listing lookup_parse if_True if_False not_True_eq_False simp_thms)

lemma filter_no_name:
  "JStr n \<notin> set (map (\<lambda>rec. get_prop rec ''Name'') (store c)) \<Longrightarrow>
     filter (\<lambda>rec. get_prop rec ''Name'' = JStr n) (store c) = []"
  by (force simp: filter_empty_conv)

lemma updateData_keys:
  "fst ` set (updateData_of JSON_stringify cfg) =
     (if is_set (endpoint cfg) then {''Endpoint__c''} else {})
     \<union> (if truthy (js_of_value (authConfig cfg)) then {''Auth_Config__c''} else {})
     \<union> (if is_set (messageTemplate cfg) then {''Message_Template__c''} else {})
     \<union> (if condition cfg \<noteq> None then {''Condition__c''} else {})
     \<union> (if active cfg \<noteq> None then {''Active__c''} else {})"
  by (auto simp: updateData_of_def set_prop_def)

lemma set_prop_fresh: "k \<notin> fst ` set obj \<Longrightarrow> set_prop obj k v = obj @ [(k, v)]"
  by (simp add: set_prop_def)

lemma spread_distinct:
  "distinct (map fst b) \<Longrightarrow> fst ` set a \<inter> fst ` set b = {} \<Longrightarrow> spread a b = a @ b"
  unfolding spread_def
proof (induction b arbitrary: a)
  case Nil
  then show ?case by simp
next
  case (Cons kv b)
  then have "fst kv \<notin> fst ` set a" by auto
  then have "set_prop a (fst kv) (snd kv) = a @ [kv]" by (simp add: set_prop_fresh)
  moreover have "fst ` set (a @ [kv]) \<inter> fst ` set b = {}" using Cons.prems by auto
  moreover have "distinct (map fst b)" using Cons.prems by simp
  ultimately show ?case using Cons.IH [of "a @ [kv]"] by simp
qed

lemma updateData_distinct: "distinct (map fst (updateData_of JSON_stringify cfg))"
  by (simp add: updateData_of_def set_prop_def)

lemma update_record_eq:
  "update_record JSON_stringify nm cfg
     = (''Name'', js_of_string nm) # updateData_of JSON_stringify cfg"
  unfolding update_record_def
  by (subst spread_distinct) (auto simp: updateData_distinct updateData_keys split: if_splits)

lemma update_record_name:
  "get_prop (update_record JSON_stringify nm cfg) ''Name'' = js_of_string nm"
  by (simp add: update_record_eq get_prop_def)

lemma crm_update_no_match:
  assumes "provisioned c" "get_prop r ''Name'' = JStr n"
    "JStr n \<notin> set (map (\<lambda>rec. get_prop rec ''Name'') (store c))"
  shows "sobject_update crm_conn ''Integration_Config__c'' r c = (Inr (), c)"
proof -
  have "map (\<lambda>rec. if get_prop rec ''Name'' = get_prop r ''Name'' then spread rec r else rec)
          (store c) = store c"
    using assms(2,3) by (intro map_idI) force
  with assms(1) show ?thesis by (simp add: crm_conn_def crm_sobject_update_def)
qed

lemma get_prop_Nil: "get_prop [] k = JUndefined"
  by (simp add: get_prop_def)

lemma get_prop_update_record:
  "k \<noteq> ''Name'' \<Longrightarrow>
     get_prop (update_record JSON_stringify nm cfg) k = get_prop (updateData_of JSON_stringify cfg) k"
  by (simp add: update_record_eq get_prop_def)

lemma updateData_condition:
  "condition cfg = Some v \<Longrightarrow> get_prop (updateData_of JSON_stringify cfg) ''Condition__c'' = JStr v"
  by (simp add: updateData_of_def Let_def get_prop_set_prop get_prop_Nil js_of_string_def)

lemma updateData_active:
  "active cfg = Some b \<Longrightarrow> get_prop (updateData_of JSON_stringify cfg) ''Active__c'' = JBool b"
  by (simp add: updateData_of_def Let_def get_prop_set_prop get_prop_Nil js_of_bool_def)

text \<open>An object is truthy even when it is empty: an authConfig of \<open>{}\<close> is sent.\<close>

lemma updateData_empty_object:
  "authConfig cfg = Some (JObj []) \<Longrightarrow>
     get_prop (updateData_of JSON_stringify cfg) ''Auth_Config__c''
       = JStr (JSON_stringify (JObj []))"
  by (simp add: updateData_of_def Let_def get_prop_set_prop get_prop_Nil js_of_value_def)

lemma update_record_keys:
  "fst ` set (update_record JSON_stringify nm cfg)
     = insert ''Name'' (fst ` set (updateData_of JSON_stringify cfg))"
  by (simp add: update_record_eq)

lemma crm_update_run_frame:
  assumes "k \<notin> fst ` set (update_record JSON_stringify nm cfg)"
  shows "map (\<lambda>rec. get_prop rec k)
           (store (snd (handleManageIntegrations JSON_stringify crm_conn
                          (manage_args ''update'' nm (Some cfg)) c)))
         = map (\<lambda>rec. get_prop rec k) (store c)"
proof -
  have "snd (handleManageIntegrations JSON_stringify crm_conn
               (manage_args ''update'' nm (Some cfg)) c)
          = snd (crm_sobject_update ''Integration_Config__c''
                   (update_record JSON_stringify nm cfg) c)"
    by (simp add: update_run crm_conn_def split: prod.splits sum.splits)
  with crm_update_frame [OF assms] show ?thesis by simp
qed

lemma quick_forward:
  assumes "createQuickSetupConfig Date_now args = Inr cfg"
  shows "handleQuickSetupIntegration JSON_stringify Date_now conn args s
           = handleManageIntegrations JSON_stringify conn (manage_args ''create'' None (Some cfg)) s"
proof -
  from handle_never_throws [of JSON_stringify conn "manage_args ''create'' None (Some cfg)" s]
  obtain resp s' where
    "handleManageIntegrations JSON_stringify conn (manage_args ''create'' None (Some cfg)) s
       = (Inr resp, s')" by (elim exE)
  with assms show ?thesis
    by (simp add: handleQuickSetupIntegration_def manage_args_def io_catch_def)
qed

lemma quick_slack:
  "qs_type args = ''slack_opportunity'' \<Longrightarrow>
     \<exists>cfg. createQuickSetupConfig Date_now args = Inr cfg
       \<and> triggerEvents cfg = [''insert'', ''update'']"
  by (simp add: createQuickSetupConfig_def Let_def)

lemma quick_whatsapp:
  "qs_type args = ''whatsapp_lead'' \<Longrightarrow>
     \<exists>cfg. createQuickSetupConfig Date_now args = Inr cfg \<and> triggerEvents cfg = [''insert'']"
  by (simp add: createQuickSetupConfig_def Let_def)

lemma quick_email:
  "qs_type args = ''email_case'' \<Longrightarrow>
     \<exists>cfg. createQuickSetupConfig Date_now args = Inr cfg \<and> triggerEvents cfg = [''insert'']"
  by (simp add: createQuickSetupConfig_def Let_def)

lemma quick_webhook:
  "qs_type args = ''webhook_custom'' \<Longrightarrow>
     \<exists>cfg. createQuickSetupConfig Date_now args = Inr cfg \<and> triggerEvents cfg = [''insert'']"
  by (simp add: createQuickSetupConfig_def Let_def)

section \<open>Properties of the management operations\<close>



text \<open>
  C2, as stated, fails for the record step: with the schema step done (the custom
  object provisioned), a failure of the record insertion is not a warning in a summary
  but the error response of the handler.
\<close>

theorem C2_record_failure_surfaces:
  "fst (create_step1 (failing is_record_creation crm_conn) [] crm_fresh) = Inr [schema_line]
   \<and> fst (handleManageIntegrations stringify_stub (failing is_record_creation crm_conn)
            (manage_args ''create'' None (Some lead_config)) crm_fresh)
       = Inr (text_response ''Error managing integration: remote call failed'')"
  by (simp add: handleManageIntegrations_def manage_args_def create_defs crm_defs io_defs
      failing_def remote_failure_def manage_error_text_def crm_fresh_def Let_def)

text \<open>
  C2, amended: once the schema step and the record step have succeeded, the create
  returns the success summary whatever the trigger and class deployments do. When the
  creation of the trigger and then its update both throw, the trigger line is the
  warning with the second error; when the creation of the class throws something that
  is not a duplicate-value Error, the class line is the warning with that error. A
  failure of the record step, after the schema step succeeded, is surfaced as the error
  response.
\<close>

theorem C2_late_failures_warn:
  "(create_step1 conn [] s = (Inr steps1, s1)
      \<and> create_step2 JSON_stringify conn cfg steps1 s1 = (Inl e, s2)
    \<longrightarrow> handleManageIntegrations JSON_stringify conn (manage_args ''create'' nm (Some cfg)) s
          = (Inr (text_response (manage_error_text e)), s2))
   \<and> (create_step1 conn [] s = (Inr steps1, s1)
      \<and> create_step2 JSON_stringify conn cfg steps1 s1 = (Inr steps2, s2)
    \<longrightarrow> (\<exists>tl cl s3 s4.
           create_step3 conn cfg steps2 s2 = (Inr (steps2 @ [tl]), s3)
         \<and> create_step4 conn (steps2 @ [tl]) s3 = (Inr (steps2 @ [tl, cl]), s4)
         \<and> handleManageIntegrations JSON_stringify conn (manage_args ''create'' nm (Some cfg)) s
             = (Inr (text_response (create_summary cfg (steps2 @ [tl, cl]))), s4)
         \<and> (\<forall>e1 sa e2 sb.
               createTrigger conn (objectName cfg @ ''IntegrationTrigger'') (objectName cfg)
                 (generateTriggerCode cfg) s2 = (Inl e1, sa)
             \<and> updateTrigger conn (objectName cfg @ ''IntegrationTrigger'')
                 (generateTriggerCode cfg) sa = (Inl e2, sb)
             \<longrightarrow> tl = trigger_warning_line e2)
         \<and> (\<forall>e4 sc.
               createApexClass conn ''IntegrationCalloutService'' generateUtilityClass s3
                 = (Inl e4, sc) \<and> \<not> is_duplicate e4
             \<longrightarrow> cl = class_warning_line e4)))"
proof (intro conjI impI)
  assume "create_step1 conn [] s = (Inr steps1, s1)
      \<and> create_step2 JSON_stringify conn cfg steps1 s1 = (Inl e, s2)"
  then show "handleManageIntegrations JSON_stringify conn (manage_args ''create'' nm (Some cfg)) s
          = (Inr (text_response (manage_error_text e)), s2)"
    by (simp add: handleManageIntegrations_def manage_args_def createIntegration_def io_defs)
next
  assume a: "create_step1 conn [] s = (Inr steps1, s1)
      \<and> create_step2 JSON_stringify conn cfg steps1 s1 = (Inr steps2, s2)"
  from create_step3_total [of conn cfg steps2 s2] obtain tl s3 where
    three: "create_step3 conn cfg steps2 s2 = (Inr (steps2 @ [tl]), s3)" by blast
  from create_step4_total [of conn "steps2 @ [tl]" s3] obtain cl s4 where
    four: "create_step4 conn (steps2 @ [tl]) s3 = (Inr (steps2 @ [tl, cl]), s4)" by auto
  have run: "handleManageIntegrations JSON_stringify conn (manage_args ''create'' nm (Some cfg)) s
             = (Inr (text_response (create_summary cfg (steps2 @ [tl, cl]))), s4)"
    using a three four
    by (simp add: handleManageIntegrations_def manage_args_def createIntegration_def io_defs)
  have warn3: "\<forall>e1 sa e2 sb.
               createTrigger conn (objectName cfg @ ''IntegrationTrigger'') (objectName cfg)
                 (generateTriggerCode cfg) s2 = (Inl e1, sa)
             \<and> updateTrigger conn (objectName cfg @ ''IntegrationTrigger'')
                 (generateTriggerCode cfg) sa = (Inl e2, sb)
             \<longrightarrow> tl = trigger_warning_line e2"
    using three create_step3_warning [of conn cfg s2 _ _ _ _ steps2] by fastforce
  have warn4: "\<forall>e4 sc.
               createApexClass conn ''IntegrationCalloutService'' generateUtilityClass s3
                 = (Inl e4, sc) \<and> \<not> is_duplicate e4
             \<longrightarrow> cl = class_warning_line e4"
    using four create_step4_warning [of conn s3 _ _ "steps2 @ [tl]"] by fastforce
  from three four run warn3 warn4
  show "\<exists>tl cl s3 s4.
           create_step3 conn cfg steps2 s2 = (Inr (steps2 @ [tl]), s3)
         \<and> create_step4 conn (steps2 @ [tl]) s3 = (Inr (steps2 @ [tl, cl]), s4)
         \<and> handleManageIntegrations JSON_stringify conn (manage_args ''create'' nm (Some cfg)) s
             = (Inr (text_response (create_summary cfg (steps2 @ [tl, cl]))), s4)
         \<and> (\<forall>e1 sa e2 sb.
               createTrigger conn (objectName cfg @ ''IntegrationTrigger'') (objectName cfg)
                 (generateTriggerCode cfg) s2 = (Inl e1, sa)
             \<and> updateTrigger conn (objectName cfg @ ''IntegrationTrigger'')
                 (generateTriggerCode cfg) sa = (Inl e2, sb)
             \<longrightarrow> tl = trigger_warning_line e2)
         \<and> (\<forall>e4 sc.
               createApexClass conn ''IntegrationCalloutService'' generateUtilityClass s3
                 = (Inl e4, sc) \<and> \<not> is_duplicate e4
             \<longrightarrow> cl = class_warning_line e4)"
    by blast
qed

theorem C2_late_failures_warn_witness:
  "handleManageIntegrations stringify_stub (failing is_code_deployment crm_conn)
     (manage_args ''create'' None (Some lead_config)) crm_fresh
   = (Inr (text_response (create_summary lead_config
        [schema_line, record_line ''a0X0'', trigger_warning_line remote_failure,
         class_warning_line remote_failure])), crm_one)
   \<and> handleManageIntegrations stringify_stub (failing is_record_creation crm_conn)
     (manage_args ''create'' None (Some lead_config)) crm_fresh
   = (Inr (text_response (manage_error_text remote_failure)), crm_empty)"
proof -
  let ?conn = "failing is_code_deployment crm_conn"
  let ?tn = "objectName lead_config @ ''IntegrationTrigger''"
  have one: "create_step1 ?conn [] crm_fresh = (Inr [schema_line], crm_empty)"
    by (simp add: create_defs crm_defs io_defs failing_def is_code_deployment_def
        crm_fresh_def crm_empty_def)
  have two: "create_step2 stringify_stub ?conn lead_config [schema_line] crm_empty
               = (Inr [schema_line, record_line ''a0X0''], crm_one)"
    by (simp add: create_defs crm_defs io_defs failing_def is_code_deployment_def
        crm_empty_def crm_one_def lead_record_def lead_config_def integrationRecord_def
        stringify_stub_def js_of_string_def js_of_bool_def js_of_value_def or_else_def
        decimal_of_nat.simps digit_char_def Let_def)
  have t1: "createTrigger ?conn ?tn (objectName lead_config) (generateTriggerCode lead_config)
              crm_one = (Inl remote_failure, crm_one)"
    by (simp add: createTrigger_def failing_def is_code_deployment_def io_defs)
  have t2: "updateTrigger ?conn ?tn (generateTriggerCode lead_config) crm_one
              = (Inl remote_failure, crm_one)"
    by (simp add: updateTrigger_def failing_def is_code_deployment_def io_defs)
  have c1: "createApexClass ?conn ''IntegrationCalloutService'' generateUtilityClass crm_one
              = (Inl remote_failure, crm_one)"
    by (simp add: createApexClass_def failing_def is_code_deployment_def io_defs)
  have nd: "\<not> is_duplicate remote_failure"
    by (simp add: is_duplicate_def remote_failure_def)
  note main = C2_late_failures_warn [where nm = None and JSON_stringify = stringify_stub,
      THEN conjunct2, THEN mp, OF conjI, OF one two]
  from main
  obtain tl cl s3 s4 where
    three: "create_step3 ?conn lead_config [schema_line, record_line ''a0X0''] crm_one
              = (Inr ([schema_line, record_line ''a0X0''] @ [tl]), s3)"
    and four: "create_step4 ?conn ([schema_line, record_line ''a0X0''] @ [tl]) s3
              = (Inr ([schema_line, record_line ''a0X0''] @ [tl, cl]), s4)"
    and run: "handleManageIntegrations stringify_stub ?conn
                (manage_args ''create'' None (Some lead_config)) crm_fresh
              = (Inr (text_response (create_summary lead_config
                   ([schema_line, record_line ''a0X0''] @ [tl, cl]))), s4)"
    and w3: "\<forall>e1 sa e2 sb.
               createTrigger ?conn ?tn (objectName lead_config)
                 (generateTriggerCode lead_config) crm_one = (Inl e1, sa)
             \<and> updateTrigger ?conn ?tn (generateTriggerCode lead_config) sa = (Inl e2, sb)
             \<longrightarrow> tl = trigger_warning_line e2"
    and w4: "\<forall>e4 sc.
               createApexClass ?conn ''IntegrationCalloutService'' generateUtilityClass s3
                 = (Inl e4, sc) \<and> \<not> is_duplicate e4
             \<longrightarrow> cl = class_warning_line e4"
    by (elim exE conjE)
  from w3 [rule_format, OF conjI, OF t1 t2]
  have tl: "tl = trigger_warning_line remote_failure" .
  from three create_step3_warning [OF t1 t2, of "[schema_line, record_line ''a0X0'']"]
  have s3: "s3 = crm_one" by simp
  from c1 s3 have c1': "createApexClass ?conn ''IntegrationCalloutService'' generateUtilityClass s3
              = (Inl remote_failure, crm_one)" by simp
  from w4 [rule_format, OF conjI, OF c1' nd]
  have cl: "cl = class_warning_line remote_failure" .
  from four create_step4_warning [OF c1 nd, of "[schema_line, record_line ''a0X0''] @ [tl]"] s3
  have s4: "s4 = crm_one" by simp
  let ?bad = "failing is_record_creation crm_conn"
  have one': "create_step1 ?bad [] crm_fresh = (Inr [schema_line], crm_empty)"
    by (simp add: create_defs crm_defs io_defs failing_def crm_fresh_def crm_empty_def)
  have two': "create_step2 stringify_stub ?bad lead_config [schema_line] crm_empty
               = (Inl remote_failure, crm_empty)"
    by (simp add: create_step2_def io_defs failing_def)
  note err = C2_late_failures_warn [where nm = None and JSON_stringify = stringify_stub,
      THEN conjunct1, THEN mp, OF conjI, OF one' two']
  have bad: "handleManageIntegrations stringify_stub ?bad
               (manage_args ''create'' None (Some lead_config)) crm_fresh
             = (Inr (text_response (manage_error_text remote_failure)), crm_empty)"
    by (rule err)
  from run tl cl s4 bad show ?thesis by simp
qed

text \<open>
  C3: an update whose partial configuration sets the active flag only issues one remote
  request, a field update that carries the name and \<open>Active__c\<close> and nothing else; on
  the reference platform every record keeps its endpoint, message template and
  authConfig.
\<close>

theorem C3_update_only_active:
  assumes "endpoint cfg = None" "authConfig cfg = None" "messageTemplate cfg = None"
    "condition cfg = None" "active cfg = Some b"
  shows "fst (snd (handleManageIntegrations JSON_stringify (traced conn)
                     (manage_args ''update'' nm (Some cfg)) ([], s)))
           = [SObjectUpdate ''Integration_Config__c''
                [(''Name'', js_of_string nm), (''Active__c'', JBool b)]]
         \<and> map (\<lambda>rec. (get_prop rec ''Endpoint__c'', get_prop rec ''Message_Template__c'',
                        get_prop rec ''Auth_Config__c''))
               (store (snd (handleManageIntegrations JSON_stringify crm_conn
                              (manage_args ''update'' nm (Some cfg)) c)))
           = map (\<lambda>rec. (get_prop rec ''Endpoint__c'', get_prop rec ''Message_Template__c'',
                          get_prop rec ''Auth_Config__c''))
               (store c)"
proof
  show "fst (snd (handleManageIntegrations JSON_stringify (traced conn)
                     (manage_args ''update'' nm (Some cfg)) ([], s)))
           = [SObjectUpdate ''Integration_Config__c''
                [(''Name'', js_of_string nm), (''Active__c'', JBool b)]]"
    by (simp add: update_run only_active_payload [OF assms] traced_sobject_update
        split: prod.splits sum.splits)
next
  let ?r = "[(''Name'', js_of_string nm), (''Active__c'', JBool b)]"
  have snd_eq: "snd (handleManageIntegrations JSON_stringify crm_conn
                  (manage_args ''update'' nm (Some cfg)) c)
                = snd (crm_sobject_update ''Integration_Config__c'' ?r c)"
    by (simp add: update_run only_active_payload [OF assms] crm_conn_def
        split: prod.splits sum.splits)
  show "map (\<lambda>rec. (get_prop rec ''Endpoint__c'', get_prop rec ''Message_Template__c'',
                        get_prop rec ''Auth_Config__c''))
               (store (snd (handleManageIntegrations JSON_stringify crm_conn
                              (manage_args ''update'' nm (Some cfg)) c)))
           = map (\<lambda>rec. (get_prop rec ''Endpoint__c'', get_prop rec ''Message_Template__c'',
                          get_prop rec ''Auth_Config__c''))
               (store c)"
    unfolding snd_eq
    by (simp add: crm_sobject_update_def get_prop_spread_other)
qed

theorem C3_update_only_active_witness:
  "endpoint only_active = None \<and> authConfig only_active = None
   \<and> messageTemplate only_active = None \<and> condition only_active = None
   \<and> active only_active = Some False
   \<and> fst (snd (handleManageIntegrations stringify_stub (traced crm_conn)
                 (manage_args ''update'' (Some ''lead_alert'') (Some only_active)) ([], crm_one)))
       = [SObjectUpdate ''Integration_Config__c''
            [(''Name'', JStr ''lead_alert''), (''Active__c'', JBool False)]]
   \<and> map (\<lambda>rec. (get_prop rec ''Endpoint__c'', get_prop rec ''Message_Template__c'',
                  get_prop rec ''Auth_Config__c''))
         (store (snd (handleManageIntegrations stringify_stub crm_conn
                        (manage_args ''update'' (Some ''lead_alert'') (Some only_active)) crm_one)))
       = [(JStr ''https://example.org/hook'', JStr ''Hi {Name}'', JStr ''{}'')]
   \<and> map (\<lambda>rec. get_prop rec ''Active__c'')
         (store (snd (handleManageIntegrations stringify_stub crm_conn
                        (manage_args ''update'' (Some ''lead_alert'') (Some only_active)) crm_one)))
       = [JBool False]"
proof -
  have h: "endpoint only_active = None" "authConfig only_active = None"
    "messageTemplate only_active = None" "condition only_active = None"
    "active only_active = Some False"
    by (simp_all add: only_active_def)
  have before: "map (\<lambda>rec. (get_prop rec ''Endpoint__c'', get_prop rec ''Message_Template__c'',
                  get_prop rec ''Auth_Config__c'')) (store crm_one)
       = [(JStr ''https://example.org/hook'', JStr ''Hi {Name}'', JStr ''{}'')]"
    by (simp add: crm_one_def lead_record_def get_prop_def)
  have flag: "map (\<lambda>rec. get_prop rec ''Active__c'')
         (store (snd (handleManageIntegrations stringify_stub crm_conn
                        (manage_args ''update'' (Some ''lead_alert'') (Some only_active)) crm_one)))
       = [JBool False]"
    unfolding update_run only_active_payload [OF h]
    by (simp add: crm_defs crm_one_def lead_record_def
        get_prop_def spread_def set_prop_def js_of_string_def)
  from C3_update_only_active [OF h, of stringify_stub crm_conn "Some ''lead_alert''" crm_one crm_one]
    h before flag
  show ?thesis by (simp add: js_of_string_def)
qed



text \<open>
  C5: a list never throws, so the handler returns its response as it is. When the
  query returns no record the response is the empty-state message, and when the query
  itself fails (the record type is not provisioned, or any other failure) it is the
  empty-state message that says so.
\<close>

theorem C5_list_empty_state:
  "operation args = ''list'' \<longrightarrow>
     handleManageIntegrations JSON_stringify conn args s = listIntegrations conn s
     \<and> (\<exists>resp s'. listIntegrations conn s = (Inr resp, s'))
     \<and> (\<forall>res s'. query conn list_soql s = (Inr res, s') \<and> records res = []
           \<longrightarrow> listIntegrations conn s = (Inr (text_response list_empty_text), s'))
     \<and> (\<forall>e s'. query conn list_soql s = (Inl e, s')
           \<longrightarrow> listIntegrations conn s = (Inr (text_response list_failed_text), s'))"
proof (intro impI conjI allI)
  assume op: "operation args = ''list''"
  from listIntegrations_never_throws [of conn s]
  obtain resp s' where r: "listIntegrations conn s = (Inr resp, s')"
    by auto
  with op show "handleManageIntegrations JSON_stringify conn args s = listIntegrations conn s"
    by (simp add: handleManageIntegrations_def io_catch_def)
  show "\<exists>resp s'. listIntegrations conn s = (Inr resp, s')"
    by (rule listIntegrations_never_throws)
next
  fix res s'
  assume "query conn list_soql s = (Inr res, s') \<and> records res = []"
  then show "listIntegrations conn s = (Inr (text_response list_empty_text), s')"
    by (simp add: listIntegrations_def io_catch_def io_bind_def io_return_def)
next
  fix e s'
  assume "query conn list_soql s = (Inl e, s')"
  then show "listIntegrations conn s = (Inr (text_response list_failed_text), s')"
    by (simp add: listIntegrations_def io_catch_def io_bind_def io_return_def)
qed

theorem C5_list_empty_state_witness:
  "operation (manage_args ''list'' None None) = ''list''
   \<and> query crm_conn list_soql crm_empty = (Inr \<lparr>records = []\<rparr>, crm_empty)
   \<and> handleManageIntegrations stringify_stub crm_conn (manage_args ''list'' None None) crm_empty
       = (Inr (text_response list_empty_text), crm_empty)
   \<and> query crm_conn list_soql crm_fresh = (Inl (crm_error ''INVALID_TYPE''), crm_fresh)
   \<and> handleManageIntegrations stringify_stub crm_conn (manage_args ''list'' None None) crm_fresh
       = (Inr (text_response list_failed_text), crm_fresh)"
proof -
  have op: "operation (manage_args ''list'' None None) = ''list''"
    by (simp add: manage_args_def)
  have q1: "query crm_conn list_soql crm_empty = (Inr \<lparr>records = []\<rparr>, crm_empty)"
    by (simp add: crm_conn_def crm_query_def crm_empty_def)
  have q2: "query crm_conn list_soql crm_fresh = (Inl (crm_error ''INVALID_TYPE''), crm_fresh)"
    by (simp add: crm_conn_def crm_query_def crm_fresh_def)
  show ?thesis
    using C5_list_empty_state [of "manage_args ''list'' None None" stringify_stub crm_conn crm_empty]
          C5_list_empty_state [of "manage_args ''list'' None None" stringify_stub crm_conn crm_fresh]
          op q1 q2
    by simp
qed

text \<open>
  C8: update, activate and deactivate issue a single request, the field update keyed by
  name, with no lookup before it; whenever that call returns, the operation returns its
  success message. On the reference platform this is what happens for a name that no
  stored record bears: the success message, and nothing changed.
\<close>

theorem C8_no_existence_check:
  "(sobject_update conn ''Integration_Config__c'' (update_record JSON_stringify nm cfg) s
      = (Inr u, s')
    \<longrightarrow> handleManageIntegrations JSON_stringify conn (manage_args ''update'' nm (Some cfg)) s
          = (Inr (text_response (updated_text nm)), s'))
   \<and> fst (snd (handleManageIntegrations JSON_stringify (traced conn)
                 (manage_args ''update'' nm (Some cfg)) ([], s)))
       = [SObjectUpdate ''Integration_Config__c'' (update_record JSON_stringify nm cfg)]
   \<and> (sobject_update conn ''Integration_Config__c''
        [(''Name'', js_of_string nm), (''Active__c'', JBool True)] s = (Inr u, s')
      \<longrightarrow> handleManageIntegrations JSON_stringify conn (manage_args ''activate'' nm any_cfg) s
            = (Inr (text_response (activated_text nm True)), s'))
   \<and> fst (snd (handleManageIntegrations JSON_stringify (traced conn)
                 (manage_args ''activate'' nm any_cfg) ([], s)))
       = [SObjectUpdate ''Integration_Config__c''
            [(''Name'', js_of_string nm), (''Active__c'', JBool True)]]
   \<and> (sobject_update conn ''Integration_Config__c''
        [(''Name'', js_of_string nm), (''Active__c'', JBool False)] s = (Inr u, s')
      \<longrightarrow> handleManageIntegrations JSON_stringify conn (manage_args ''deactivate'' nm any_cfg) s
            = (Inr (text_response (activated_text nm False)), s'))
   \<and> fst (snd (handleManageIntegrations JSON_stringify (traced conn)
                 (manage_args ''deactivate'' nm any_cfg) ([], s)))
       = [SObjectUpdate ''Integration_Config__c''
            [(''Name'', js_of_string nm), (''Active__c'', JBool False)]]
   \<and> (provisioned c \<and> JStr n \<notin> set (map (\<lambda>rec. get_prop rec ''Name'') (store c))
      \<longrightarrow> handleManageIntegrations JSON_stringify crm_conn
              (manage_args ''update'' (Some n) (Some cfg)) c
            = (Inr (text_response (updated_text (Some n))), c)
        \<and> handleManageIntegrations JSON_stringify crm_conn
              (manage_args ''activate'' (Some n) any_cfg) c
            = (Inr (text_response (activated_text (Some n) True)), c)
        \<and> handleManageIntegrations JSON_stringify crm_conn
              (manage_args ''deactivate'' (Some n) any_cfg) c
            = (Inr (text_response (activated_text (Some n) False)), c))"
proof (intro conjI impI)
  assume "sobject_update conn ''Integration_Config__c'' (update_record JSON_stringify nm cfg) s
      = (Inr u, s')"
  then show "handleManageIntegrations JSON_stringify conn (manage_args ''update'' nm (Some cfg)) s
          = (Inr (text_response (updated_text nm)), s')"
    by (simp add: update_run)
next
  show "fst (snd (handleManageIntegrations JSON_stringify (traced conn)
                 (manage_args ''update'' nm (Some cfg)) ([], s)))
       = [SObjectUpdate ''Integration_Config__c'' (update_record JSON_stringify nm cfg)]"
    by (simp add: update_run traced_sobject_update split: prod.splits sum.splits)
next
  assume "sobject_update conn ''Integration_Config__c''
        [(''Name'', js_of_string nm), (''Active__c'', JBool True)] s = (Inr u, s')"
  then show "handleManageIntegrations JSON_stringify conn (manage_args ''activate'' nm any_cfg) s
            = (Inr (text_response (activated_text nm True)), s')"
    by (simp add: activate_run)
next
  show "fst (snd (handleManageIntegrations JSON_stringify (traced conn)
                 (manage_args ''activate'' nm any_cfg) ([], s)))
       = [SObjectUpdate ''Integration_Config__c''
            [(''Name'', js_of_string nm), (''Active__c'', JBool True)]]"
    by (simp add: activate_run traced_sobject_update split: prod.splits sum.splits)
next
  assume "sobject_update conn ''Integration_Config__c''
        [(''Name'', js_of_string nm), (''Active__c'', JBool False)] s = (Inr u, s')"
  then show "handleManageIntegrations JSON_stringify conn (manage_args ''deactivate'' nm any_cfg) s
            = (Inr (text_response (activated_text nm False)), s')"
    by (simp add: deactivate_run)
next
  show "fst (snd (handleManageIntegrations JSON_stringify (traced conn)
                 (manage_args ''deactivate'' nm any_cfg) ([], s)))
       = [SObjectUpdate ''Integration_Config__c''
            [(''Name'', js_of_string nm), (''Active__c'', JBool False)]]"
    by (simp add: deactivate_run traced_sobject_update split: prod.splits sum.splits)
next
  assume a: "provisioned c \<and> JStr n \<notin> set (map (\<lambda>rec. get_prop rec ''Name'') (store c))"
  have "get_prop (update_record JSON_stringify (Some n) cfg) ''Name'' = JStr n"
    by (simp add: update_record_name js_of_string_def)
  with a have "sobject_update crm_conn ''Integration_Config__c''
                 (update_record JSON_stringify (Some n) cfg) c = (Inr (), c)"
    by (intro crm_update_no_match [where n = n]) simp_all
  then show "handleManageIntegrations JSON_stringify crm_conn
              (manage_args ''update'' (Some n) (Some cfg)) c
            = (Inr (text_response (updated_text (Some n))), c)"
    by (simp add: update_run)
next
  assume a: "provisioned c \<and> JStr n \<notin> set (map (\<lambda>rec. get_prop rec ''Name'') (store c))"
  then have "sobject_update crm_conn ''Integration_Config__c''
               [(''Name'', js_of_string (Some n)), (''Active__c'', JBool True)] c = (Inr (), c)"
    by (intro crm_update_no_match [where n = n]) (simp_all add: get_prop_def js_of_string_def)
  then show "handleManageIntegrations JSON_stringify crm_conn
              (manage_args ''activate'' (Some n) any_cfg) c
            = (Inr (text_response (activated_text (Some n) True)), c)"
    by (simp add: activate_run)
next
  assume a: "provisioned c \<and> JStr n \<notin> set (map (\<lambda>rec. get_prop rec ''Name'') (store c))"
  then have "sobject_update crm_conn ''Integration_Config__c''
               [(''Name'', js_of_string (Some n)), (''Active__c'', JBool False)] c = (Inr (), c)"
    by (intro crm_update_no_match [where n = n]) (simp_all add: get_prop_def js_of_string_def)
  then show "handleManageIntegrations JSON_stringify crm_conn
              (manage_args ''deactivate'' (Some n) any_cfg) c
            = (Inr (text_response (activated_text (Some n) False)), c)"
    by (simp add: deactivate_run)
qed

theorem C8_no_existence_check_witness:
  "provisioned crm_one
   \<and> JStr ''ghost'' \<notin> set (map (\<lambda>rec. get_prop rec ''Name'') (store crm_one))
   \<and> sobject_update crm_conn ''Integration_Config__c''
        [(''Name'', js_of_string (Some ''ghost'')), (''Active__c'', JBool False)] crm_one
       = (Inr (), crm_one)
   \<and> handleManageIntegrations stringify_stub crm_conn
        (manage_args ''update'' (Some ''ghost'') (Some lead_config)) crm_one
       = (Inr (text_response (updated_text (Some ''ghost''))), crm_one)
   \<and> handleManageIntegrations stringify_stub crm_conn
        (manage_args ''activate'' (Some ''ghost'') None) crm_one
       = (Inr (text_response (activated_text (Some ''ghost'') True)), crm_one)
   \<and> handleManageIntegrations stringify_stub crm_conn
        (manage_args ''deactivate'' (Some ''ghost'') None) crm_one
       = (Inr (text_response (activated_text (Some ''ghost'') False)), crm_one)
   \<and> fst (snd (handleManageIntegrations stringify_stub (traced crm_conn)
                 (manage_args ''deactivate'' (Some ''ghost'') None) ([], crm_one)))
       = [SObjectUpdate ''Integration_Config__c''
            [(''Name'', JStr ''ghost''), (''Active__c'', JBool False)]]
   \<and> handleManageIntegrations stringify_stub crm_conn
        (manage_args ''delete'' (Some ''ghost'') None) crm_one
       = (Inr (text_response (manage_error_text (not_found (Some ''ghost'')))), crm_one)"
proof -
  have p: "provisioned crm_one"
    and n: "JStr ''ghost'' \<notin> set (map (\<lambda>rec. get_prop rec ''Name'') (store crm_one))"
    by (simp_all add: crm_one_def lead_record_def get_prop_def)
  have u: "sobject_update crm_conn ''Integration_Config__c''
        [(''Name'', js_of_string (Some ''ghost'')), (''Active__c'', JBool False)] crm_one
       = (Inr (), crm_one)"
    using p n by (intro crm_update_no_match [where n = "''ghost''"])
      (simp_all add: get_prop_def js_of_string_def)
  have "query crm_conn (delete_soql (Some ''ghost'')) crm_one = (Inr \<lparr>records = []\<rparr>, crm_one)"
    using p n by (simp add: crm_conn_def crm_lookup filter_no_name)
  then have d: "handleManageIntegrations stringify_stub crm_conn
        (manage_args ''delete'' (Some ''ghost'') None) crm_one
       = (Inr (text_response (manage_error_text (not_found (Some ''ghost'')))), crm_one)"
    by (simp add: handleManageIntegrations_def manage_args_def deleteIntegration_def io_defs)
  from C8_no_existence_check [of crm_conn stringify_stub "Some ''ghost''" lead_config crm_one "()"
         crm_one None crm_one "''ghost''"] p n u d
  show ?thesis by (simp add: js_of_string_def)
qed

text \<open>
  C9: in an update, an endpoint or message template that is absent or the empty string,
  and an authConfig that is absent or falsy, are left out of the record sent, and on the
  reference platform the stored values stay as they were; a condition set to the empty
  string and an active flag set to false are sent. The record goes out in a single
  field update, whose success message does not tell what was left out.
\<close>

theorem C9_falsy_fields_skipped:
  "(\<not> is_set (endpoint cfg) \<longrightarrow>
       ''Endpoint__c'' \<notin> fst ` set (update_record JSON_stringify nm cfg)
     \<and> map (\<lambda>rec. get_prop rec ''Endpoint__c'')
           (store (snd (handleManageIntegrations JSON_stringify crm_conn
                          (manage_args ''update'' nm (Some cfg)) c)))
         = map (\<lambda>rec. get_prop rec ''Endpoint__c'') (store c))
   \<and> (\<not> truthy (js_of_value (authConfig cfg)) \<longrightarrow>
       ''Auth_Config__c'' \<notin> fst ` set (update_record JSON_stringify nm cfg)
     \<and> map (\<lambda>rec. get_prop rec ''Auth_Config__c'')
           (store (snd (handleManageIntegrations JSON_stringify crm_conn
                          (manage_args ''update'' nm (Some cfg)) c)))
         = map (\<lambda>rec. get_prop rec ''Auth_Config__c'') (store c))
   \<and> (\<not> is_set (messageTemplate cfg) \<longrightarrow>
       ''Message_Template__c'' \<notin> fst ` set (update_record JSON_stringify nm cfg)
     \<and> map (\<lambda>rec. get_prop rec ''Message_Template__c'')
           (store (snd (handleManageIntegrations JSON_stringify crm_conn
                          (manage_args ''update'' nm (Some cfg)) c)))
         = map (\<lambda>rec. get_prop rec ''Message_Template__c'') (store c))
   \<and> (condition cfg = Some [] \<longrightarrow>
       get_prop (update_record JSON_stringify nm cfg) ''Condition__c'' = JStr [])
   \<and> (active cfg = Some False \<longrightarrow>
       get_prop (update_record JSON_stringify nm cfg) ''Active__c'' = JBool False)
   \<and> fst (snd (handleManageIntegrations JSON_stringify (traced conn)
                 (manage_args ''update'' nm (Some cfg)) ([], s)))
       = [SObjectUpdate ''Integration_Config__c'' (update_record JSON_stringify nm cfg)]"
proof (intro conjI impI)
  assume "\<not> is_set (endpoint cfg)"
  then show e: "''Endpoint__c'' \<notin> fst ` set (update_record JSON_stringify nm cfg)"
    by (simp add: update_record_keys updateData_keys)
  show "map (\<lambda>rec. get_prop rec ''Endpoint__c'')
           (store (snd (handleManageIntegrations JSON_stringify crm_conn
                          (manage_args ''update'' nm (Some cfg)) c)))
         = map (\<lambda>rec. get_prop rec ''Endpoint__c'') (store c)"
    by (rule crm_update_run_frame [OF e])
next
  assume "\<not> truthy (js_of_value (authConfig cfg))"
  then show a: "''Auth_Config__c'' \<notin> fst ` set (update_record JSON_stringify nm cfg)"
    by (simp add: update_record_keys updateData_keys)
  show "map (\<lambda>rec. get_prop rec ''Auth_Config__c'')
           (store (snd (handleManageIntegrations JSON_stringify crm_conn
                          (manage_args ''update'' nm (Some cfg)) c)))
         = map (\<lambda>rec. get_prop rec ''Auth_Config__c'') (store c)"
    by (rule crm_update_run_frame [OF a])
next
  assume "\<not> is_set (messageTemplate cfg)"
  then show m: "''Message_Template__c'' \<notin> fst ` set (update_record JSON_stringify nm cfg)"
    by (simp add: update_record_keys updateData_keys)
  show "map (\<lambda>rec. get_prop rec ''Message_Template__c'')
           (store (snd (handleManageIntegrations JSON_stringify crm_conn
                          (manage_args ''update'' nm (Some cfg)) c)))
         = map (\<lambda>rec. get_prop rec ''Message_Template__c'') (store c)"
    by (rule crm_update_run_frame [OF m])
next
  assume "condition cfg = Some []"
  then show "get_prop (update_record JSON_stringify nm cfg) ''Condition__c'' = JStr []"
    by (simp add: get_prop_update_record updateData_condition)
next
  assume "active cfg = Some False"
  then show "get_prop (update_record JSON_stringify nm cfg) ''Active__c'' = JBool False"
    by (simp add: get_prop_update_record updateData_active)
next
  show "fst (snd (handleManageIntegrations JSON_stringify (traced conn)
                 (manage_args ''update'' nm (Some cfg)) ([], s)))
       = [SObjectUpdate ''Integration_Config__c'' (update_record JSON_stringify nm cfg)]"
    by (simp add: update_run traced_sobject_update split: prod.splits sum.splits)
qed

theorem C9_falsy_fields_skipped_witness:
  "\<not> is_set (endpoint empty_values) \<and> \<not> truthy (js_of_value (authConfig empty_values))
   \<and> \<not> is_set (messageTemplate empty_values)
   \<and> condition empty_values = Some [] \<and> active empty_values = Some False
   \<and> update_record stringify_stub (Some ''lead_alert'') empty_values
       = [(''Name'', JStr ''lead_alert''), (''Condition__c'', JStr []), (''Active__c'', JBool False)]
   \<and> map (\<lambda>rec. get_prop rec ''Endpoint__c'')
         (store (snd (handleManageIntegrations stringify_stub crm_conn
                        (manage_args ''update'' (Some ''lead_alert'') (Some empty_values)) crm_one)))
       = [JStr ''https://example.org/hook'']
   \<and> map (\<lambda>rec. get_prop rec ''Auth_Config__c'')
         (store (snd (handleManageIntegrations stringify_stub crm_conn
                        (manage_args ''update'' (Some ''lead_alert'') (Some empty_values)) crm_one)))
       = [JStr ''{}'']
   \<and> map (\<lambda>rec. get_prop rec ''Message_Template__c'')
         (store (snd (handleManageIntegrations stringify_stub crm_conn
                        (manage_args ''update'' (Some ''lead_alert'') (Some empty_values)) crm_one)))
       = [JStr ''Hi {Name}'']
   \<and> get_prop (update_record stringify_stub (Some ''lead_alert'') empty_values) ''Condition__c''
       = JStr []
   \<and> get_prop (update_record stringify_stub (Some ''lead_alert'') empty_values) ''Active__c''
       = JBool False"
proof -
  have h: "\<not> is_set (endpoint empty_values)" "\<not> truthy (js_of_value (authConfig empty_values))"
    "\<not> is_set (messageTemplate empty_values)"
    "condition empty_values = Some []" "active empty_values = Some False"
    by (simp_all add: empty_values_def is_set_def js_of_value_def)
  have r: "update_record stringify_stub (Some ''lead_alert'') empty_values
       = [(''Name'', JStr ''lead_alert''), (''Condition__c'', JStr []), (''Active__c'', JBool False)]"
    by (simp add: update_record_eq updateData_of_def empty_values_def is_set_def js_of_value_def
        js_of_string_def js_of_bool_def set_prop_def)
  have before: "map (\<lambda>rec. get_prop rec ''Endpoint__c'') (store crm_one)
                  = [JStr ''https://example.org/hook'']"
    "map (\<lambda>rec. get_prop rec ''Auth_Config__c'') (store crm_one) = [JStr ''{}'']"
    "map (\<lambda>rec. get_prop rec ''Message_Template__c'') (store crm_one) = [JStr ''Hi {Name}'']"
    by (simp_all add: crm_one_def lead_record_def get_prop_def)
  from C9_falsy_fields_skipped [of empty_values stringify_stub "Some ''lead_alert''" crm_one
         crm_conn crm_one] h r before
  show ?thesis by simp
qed

section \<open>Properties of the quick setup\<close>

text \<open>
  C6: for the preset \<open>slack_opportunity\<close> the configuration built has the trigger
  events insert and update, for each of \<open>whatsapp_lead\<close>, \<open>email_case\<close> and
  \<open>webhook_custom\<close> it has insert alone; and that configuration is what the quick
  setup hands to the create operation of the management handler.
\<close>

theorem C6_quick_setup_trigger_events:
  "(qs_type args = ''slack_opportunity'' \<longrightarrow>
      (\<exists>cfg. createQuickSetupConfig Date_now args = Inr cfg
         \<and> triggerEvents cfg = [''insert'', ''update'']
         \<and> handleQuickSetupIntegration JSON_stringify Date_now conn args s
             = handleManageIntegrations JSON_stringify conn
                 (manage_args ''create'' None (Some cfg)) s))
   \<and> (qs_type args = ''whatsapp_lead'' \<or> qs_type args = ''email_case''
        \<or> qs_type args = ''webhook_custom'' \<longrightarrow>
      (\<exists>cfg. createQuickSetupConfig Date_now args = Inr cfg
         \<and> triggerEvents cfg = [''insert'']
         \<and> handleQuickSetupIntegration JSON_stringify Date_now conn args s
             = handleManageIntegrations JSON_stringify conn
                 (manage_args ''create'' None (Some cfg)) s))"
proof (intro conjI impI)
  assume "qs_type args = ''slack_opportunity''"
  from quick_slack [OF this, of Date_now]
  obtain cfg where c: "createQuickSetupConfig Date_now args = Inr cfg"
    and t: "triggerEvents cfg = [''insert'', ''update'']"
    by (elim exE conjE)
  from c t quick_forward [OF c, of JSON_stringify conn s]
  show "\<exists>cfg. createQuickSetupConfig Date_now args = Inr cfg
         \<and> triggerEvents cfg = [''insert'', ''update'']
         \<and> handleQuickSetupIntegration JSON_stringify Date_now conn args s
             = handleManageIntegrations JSON_stringify conn
                 (manage_args ''create'' None (Some cfg)) s"
    by (intro exI [of _ cfg] conjI)
next
  assume "qs_type args = ''whatsapp_lead'' \<or> qs_type args = ''email_case''
        \<or> qs_type args = ''webhook_custom''"
  then have "\<exists>cfg. createQuickSetupConfig Date_now args = Inr cfg \<and> triggerEvents cfg = [''insert'']"
    using quick_whatsapp [of args Date_now] quick_email [of args Date_now]
      quick_webhook [of args Date_now]
    by (elim disjE) simp_all
  then obtain cfg where c: "createQuickSetupConfig Date_now args = Inr cfg"
    and t: "triggerEvents cfg = [''insert'']"
    by (elim exE conjE)
  from c t quick_forward [OF c, of JSON_stringify conn s]
  show "\<exists>cfg. createQuickSetupConfig Date_now args = Inr cfg
         \<and> triggerEvents cfg = [''insert'']
         \<and> handleQuickSetupIntegration JSON_stringify Date_now conn args s
             = handleManageIntegrations JSON_stringify conn
                 (manage_args ''create'' None (Some cfg)) s"
    by (intro exI [of _ cfg] conjI)
qed

theorem C6_quick_setup_trigger_events_witness:
  "qs_type slack_args = ''slack_opportunity''
   \<and> map_sum id triggerEvents (createQuickSetupConfig 1700000000000 slack_args)
       = Inr [''insert'', ''update'']
   \<and> qs_type whatsapp_args = ''whatsapp_lead''
   \<and> map_sum id triggerEvents (createQuickSetupConfig 1700000000000 whatsapp_args)
       = Inr [''insert'']
   \<and> map_sum id name (createQuickSetupConfig 1700000000000 whatsapp_args)
       = Inr ''whatsapp_lead_Lead_1700000000000''"
proof -
  have a: "qs_type slack_args = ''slack_opportunity''"
    by (simp add: slack_args_def)
  have b: "qs_type whatsapp_args = ''whatsapp_lead''"
    by (simp add: whatsapp_args_def)
  have dec: "decimal_of_nat 1700000000000 = ''1700000000000''"
    by (simp add: decimal_of_nat.simps digit_char_def)
  have n: "map_sum id name (createQuickSetupConfig 1700000000000 whatsapp_args)
       = Inr ''whatsapp_lead_Lead_1700000000000''"
    by (simp add: createQuickSetupConfig_def whatsapp_args_def Let_def dec)
  from C6_quick_setup_trigger_events [of slack_args 1700000000000 stringify_stub crm_conn crm_fresh,
         THEN conjunct1, THEN mp, OF a]
  obtain c1 where c1: "createQuickSetupConfig 1700000000000 slack_args = Inr c1"
    "triggerEvents c1 = [''insert'', ''update'']"
    by (elim exE conjE)
  from C6_quick_setup_trigger_events [of whatsapp_args 1700000000000 stringify_stub crm_conn crm_fresh,
         THEN conjunct2, THEN mp, OF disjI1, OF b]
  obtain c2 where c2: "createQuickSetupConfig 1700000000000 whatsapp_args = Inr c2"
    "triggerEvents c2 = [''insert'']"
    by (elim exE conjE)
  have e1: "map_sum id triggerEvents (createQuickSetupConfig 1700000000000 slack_args)
       = Inr [''insert'', ''update'']"
    by (simp add: c1)
  have e2: "map_sum id triggerEvents (createQuickSetupConfig 1700000000000 whatsapp_args)
       = Inr [''insert'']"
    by (simp add: c2)
  from a b n e1 e2 show ?thesis by (intro conjI)
qed

text \<open>
  C10: every configuration that the quick setup builds is active, whatever the caller
  passed (the arguments have no active flag), and the record that create stores from it
  has \<open>Active__c\<close> set to true.
\<close>

theorem C10_quick_setup_active:
  "createQuickSetupConfig Date_now args = Inr cfg \<Longrightarrow>
     active cfg = Some True
     \<and> get_prop (integrationRecord JSON_stringify cfg) ''Active__c'' = JBool True"
proof -
  assume c: "createQuickSetupConfig Date_now args = Inr cfg"
  then have "active cfg = Some True"
    by (auto simp: createQuickSetupConfig_def Let_def split: if_splits)
  then show ?thesis
    by (simp add: integrationRecord_def get_prop_def js_of_bool_def)
qed


theorem C10_quick_setup_active_witness:
  "map_sum id active (createQuickSetupConfig 1700000000000 whatsapp_args) = Inr (Some True)
   \<and> map_sum id (\<lambda>cfg. get_prop (integrationRecord stringify_stub cfg) ''Active__c'')
         (createQuickSetupConfig 1700000000000 whatsapp_args) = Inr (JBool True)"
proof -
  have "\<exists>cfg. createQuickSetupConfig 1700000000000 whatsapp_args = Inr cfg"
    by (simp add: createQuickSetupConfig_def whatsapp_args_def Let_def)
  then obtain cfg where c: "createQuickSetupConfig 1700000000000 whatsapp_args = Inr cfg" ..
  from C10_quick_setup_active [OF c, of stringify_stub] c show ?thesis by simp
qed

section \<open>Properties of the connection establisher\<close>

text \<open>
  C7, as stated, fails: the login URL is not required. With user name, password and
  token set and no \<open>SALESFORCE_INSTANCE_URL\<close>, no configuration error is raised and the
  login runs against the default URL.
\<close>

theorem C7_login_url_not_required:
  "createUserPasswordConnection env_no_url login_echo () =
     (Inr (''https://login.salesforce.com'', ''u'', ''pt''), ())"
  by (simp add: createUserPasswordConnection_def env_no_url_def is_set_def or_else_def
      login_echo_def io_return_def)

text \<open>
  C7, amended: the password grant requires the user name, the password and the security
  token. When one of them is unset or empty, the attempt fails, before any login, with
  an error whose message lists all three variable names. When the three are set, the
  login is called with the password followed by the token, at the configured login
  URL, or at \<open>https://login.salesforce.com\<close> when none is configured.
\<close>

theorem C7_password_grant_requirements:
  "(\<not> is_set (process_env ''SALESFORCE_USERNAME'') \<or>
    \<not> is_set (process_env ''SALESFORCE_PASSWORD'') \<or>
    \<not> is_set (process_env ''SALESFORCE_TOKEN'')
    \<longrightarrow> createUserPasswordConnection process_env login s =
        (Inl (ErrorObj ''Error''
          ''Missing required Salesforce credentials: SALESFORCE_USERNAME, SALESFORCE_PASSWORD, SALESFORCE_TOKEN''), s))
   \<and> (process_env ''SALESFORCE_USERNAME'' = Some u \<and> u \<noteq> [] \<and>
      process_env ''SALESFORCE_PASSWORD'' = Some p \<and> p \<noteq> [] \<and>
      process_env ''SALESFORCE_TOKEN'' = Some t \<and> t \<noteq> []
    \<longrightarrow> createUserPasswordConnection process_env login s =
        login (or_else (process_env ''SALESFORCE_INSTANCE_URL'') ''https://login.salesforce.com'')
          u (p @ t) s)"
  by (simp add: createUserPasswordConnection_def is_set_def io_throw_def new_Error_def Let_def)

theorem C7_password_grant_requirements_witness:
  "\<not> is_set (env_no_token ''SALESFORCE_TOKEN'') \<and>
   createUserPasswordConnection env_no_token login_echo () =
     (Inl (ErrorObj ''Error''
          ''Missing required Salesforce credentials: SALESFORCE_USERNAME, SALESFORCE_PASSWORD, SALESFORCE_TOKEN''), ()) \<and>
   env_no_url ''SALESFORCE_USERNAME'' = Some ''u'' \<and>
   env_no_url ''SALESFORCE_PASSWORD'' = Some ''p'' \<and>
   env_no_url ''SALESFORCE_TOKEN'' = Some ''t'' \<and>
   env_no_url ''SALESFORCE_INSTANCE_URL'' = None \<and>
   createUserPasswordConnection env_no_url login_echo () =
     login_echo ''https://login.salesforce.com'' ''u'' ''pt'' ()"
  using C7_password_grant_requirements [of env_no_token login_echo "()" "''u''" "''p''" "''t''"]
        C7_password_grant_requirements [of env_no_url login_echo "()" "''u''" "''p''" "''t''"]
  by (simp add: env_no_token_def env_no_url_def is_set_def or_else_def)

end
